theory Spec2Isabelle
  imports Complex_Main
begin

section \<open>The particle filter of robot\_localization (pf.py)\<close>

text \<open>
  The filter computes with Python floats. They are modelled as \<open>real\<close>, in exact
  arithmetic, with one exception. In the resampler the branch that is taken depends
  on the rounding of a running sum of doubles: there the doubles are modelled, and
  \<open>round_to_double\<close> rounds a real to the nearest double.
  Random draws (\<open>np.random.randn\<close>, \<open>np.random.rand\<close>, \<open>np.random.normal\<close>) are
  inputs of the model: a function from the loop index to the standard draws of that
  iteration.
\<close>

subsection \<open>Errors\<close>

datatype error = ZeroDivisionError | IndexError | AttributeError

subsection \<open>Particle\<close>

text \<open>
  The class \<open>Particle\<close>, attributes \<open>x, y, theta, w, norm_w\<close>. The fields carry the
  prefix \<open>p_\<close>, so that \<open>x\<close>, \<open>y\<close> and \<open>w\<close> stay usable as variables.
\<close>

record particle =
  p_x :: real
  p_y :: real
  p_theta :: real
  p_w :: real
  p_norm_w :: real

text \<open>\<open>Particle.__init__(x=0.0, y=0.0, theta=0.0, w=1.0)\<close>: \<open>norm_w\<close> starts at 1.0.\<close>

definition Particle :: "real \<Rightarrow> real \<Rightarrow> real \<Rightarrow> real \<Rightarrow> particle" where
  "Particle x0 y0 th0 w0 = \<lparr>p_x = x0, p_y = y0, p_theta = th0, p_w = w0, p_norm_w = 1\<rparr>"

text \<open>The default weight of the constructor.\<close>

definition default_w :: real where
  "default_w = 1"

text \<open>
  A pose message. \<open>quaternion_from_euler(0, 0, theta)\<close> comes from a module outside
  this file; the orientation is kept as the yaw it is built from.
\<close>

record pose =
  pos_x :: real
  pos_y :: real
  pos_z :: real
  yaw :: real

definition as_pose :: "particle \<Rightarrow> pose" where
  "as_pose p = \<lparr>pos_x = p_x p, pos_y = p_y p, pos_z = 0, yaw = p_theta p\<rparr>"

definition turn :: "real \<Rightarrow> particle \<Rightarrow> particle" where
  "turn delta_theta p = p\<lparr>p_theta := p_theta p + delta_theta\<rparr>"

definition drive :: "real \<Rightarrow> particle \<Rightarrow> particle" where
  "drive delta_dist p =
     p\<lparr>p_x := p_x p + delta_dist * cos (p_theta p),
       p_y := p_y p + delta_dist * sin (p_theta p)\<rparr>"

subsection \<open>Library functions the filter calls\<close>

text \<open>\<open>np.arctan2(y, x)\<close> on reals (no signed zero): the angle of the point \<open>(x, y)\<close>.\<close>

definition arctan2 :: "real \<Rightarrow> real \<Rightarrow> real" where
  "arctan2 b a =
     (if 0 < a then arctan (b / a)
      else if a < 0 then (if 0 \<le> b then arctan (b / a) + pi else arctan (b / a) - pi)
      else if 0 < b then pi / 2
      else if b < 0 then - (pi / 2)
      else 0)"

text \<open>Python's \<open>round\<close> of a float to an int: to the nearest, a tie to the even one.\<close>

definition py_round :: "real \<Rightarrow> int" where
  "py_round r =
     (let f = \<lfloor>r\<rfloor>; d = r - of_int f
      in if d < 1 / 2 then f
         else if 1 / 2 < d then f + 1
         else if even f then f else f + 1)"

text \<open>
  A double holds 53 significant bits. \<open>double_exponent x\<close> is the binary exponent of
  \<open>x\<close>, and \<open>round_to_double x\<close> is the nearest number with 53 significant bits at
  that exponent, a tie going to the even one (IEEE 754 round to nearest, ties to
  even). Overflow and subnormal numbers are left out: the values rounded here lie
  between \<open>2^-1022\<close> and 2.
\<close>

definition double_exponent :: "real \<Rightarrow> int" where
  "double_exponent x = \<lfloor>log 2 \<bar>x\<bar>\<rfloor>"

definition round_to_double :: "real \<Rightarrow> real" where
  "round_to_double x =
     (if x = 0 then 0
      else (let ulp = 2 powr (of_int (double_exponent x) - 52)
            in of_int (py_round (x / ulp)) * ulp))"

text \<open>
  The slice \<open>xs[start:stop]\<close>: a negative bound counts from the end, and both bounds
  are clamped to the sequence.
\<close>

definition slice_bound :: "int \<Rightarrow> int \<Rightarrow> nat" where
  "slice_bound n i = nat (if i < 0 then max 0 (i + n) else min i n)"

definition py_slice :: "'a list \<Rightarrow> int \<Rightarrow> int \<Rightarrow> 'a list" where
  "py_slice xs start stop =
     (let lo = slice_bound (int (length xs)) start;
          hi = slice_bound (int (length xs)) stop
      in take (hi - lo) (drop lo xs))"

text \<open>
  \<open>np.argsort(weights)\<close>: the indices in ascending order of weight. Equal weights
  keep their index order here; numpy leaves their order to the sorting algorithm.
\<close>

definition argsort :: "real list \<Rightarrow> nat list" where
  "argsort ws = sort_key (\<lambda>i. ws ! i) [0..<length ws]"

text \<open>
  \<open>cumsum\<close> of an array of doubles: the running sums, each addition rounded to a
  double.
\<close>

fun cumsum_from :: "real \<Rightarrow> real list \<Rightarrow> real list" where
  "cumsum_from acc [] = []"
| "cumsum_from acc (v # vs) =
     round_to_double (acc + v) # cumsum_from (round_to_double (acc + v)) vs"

definition cumsum :: "real list \<Rightarrow> real list" where
  "cumsum vs = cumsum_from 0 vs"

text \<open>
  \<open>np.searchsorted(a, v)\<close> with the default left side: a binary search for the first
  index whose element is not below \<open>v\<close>.
\<close>

function bsearch_left :: "bool list \<Rightarrow> bool \<Rightarrow> nat \<Rightarrow> nat \<Rightarrow> nat" where
  "bsearch_left a v lo hi =
     (if lo < hi
      then (let mid = lo + (hi - lo) div 2
            in if a ! mid < v then bsearch_left a v (mid + 1) hi
               else bsearch_left a v lo mid)
      else lo)"
  by pat_completeness auto
termination
  by (relation "measure (\<lambda>(a, v, lo, hi). hi - lo)") auto

declare bsearch_left.simps [simp del]

definition searchsorted :: "bool list \<Rightarrow> bool \<Rightarrow> nat" where
  "searchsorted a v = bsearch_left a v 0 (length a)"

subsection \<open>The weight normalizer\<close>

text \<open>
  \<open>normalize_particles\<close>: the first loop sums the raw weights, the second divides each
  weight by the sum. A Python float divided by a zero sum raises ZeroDivisionError at
  the first particle; on an empty cloud the second loop does not run.
\<close>

definition normalize_cloud :: "particle list \<Rightarrow> error + particle list" where
  "normalize_cloud cloud =
     (let total_weight = foldl (\<lambda>t p. t + p_w p) 0 cloud
      in if cloud \<noteq> [] \<and> total_weight = 0 then Inl ZeroDivisionError
         else Inr (map (\<lambda>p. p\<lparr>p_norm_w := p_w p / total_weight\<rparr>) cloud))"

subsection \<open>The filter's state\<close>

text \<open>
  An odometry snapshot \<open>(x, y, theta)\<close>, as \<open>convert_pose_to_xy_and_theta\<close> of the
  transform helper returns it. The helper is outside this file; an odometry pose is
  held as the triple it converts to.
\<close>

type_synonym xy_theta = "real \<times> real \<times> real"

text \<open>
  A scan message: its time stamp, and the polar readings that
  \<open>convert_scan_to_polar_in_robot_frame\<close> returns for it. A range is \<open>None\<close> when
  the reading is infinite.
\<close>

record laser_scan =
  stamp :: int
  scan_r :: "real option list"
  scan_theta :: "real list"

text \<open>The \<open>ParticleCloud\<close> message that \<open>publish_particles\<close> sends.\<close>

record cloud_msg =
  frame_id :: string
  msg_stamp :: int
  msg_particles :: "(pose \<times> real) list"

text \<open>
  The attributes of \<open>ParticleFilter\<close> that the main loop reads and writes.
  \<open>current_odom_xy_theta\<close> is \<open>None\<close> while the source holds the empty list;
  \<open>odom_pose\<close> and \<open>robot_pose\<close> are \<open>None\<close> while the attribute does not exist.
  \<open>map_to_odom\<close> records the arguments of the last \<open>fix_map_to_odom_transform\<close>
  call, \<open>published\<close> the messages sent on \<open>particle_pub\<close>, oldest first.
\<close>

record pf =
  map_frame :: string
  n_particles :: int
  d_thresh :: real
  a_thresh :: real
  scan_to_process :: "laser_scan option"
  particle_cloud :: "particle list"
  current_odom_xy_theta :: "xy_theta option"
  odom_pose :: "xy_theta option"
  robot_pose :: "pose option"
  map_to_odom :: "(pose \<times> xy_theta) option"
  published :: "cloud_msg list"

text \<open>\<open>ParticleFilter.__init__\<close>.\<close>

definition pf_init :: pf where
  "pf_init =
     \<lparr>map_frame = ''map'', n_particles = 300, d_thresh = 2 / 10, a_thresh = pi / 6,
      scan_to_process = None, particle_cloud = [], current_odom_xy_theta = None,
      odom_pose = None, robot_pose = None, map_to_odom = None, published = []\<rparr>"

text \<open>
  What one cycle of the loop takes from outside: the answer of
  \<open>get_matching_odom_pose\<close> for the pending scan (the pose, and the time difference
  in seconds), the occupancy field's \<open>get_closest_obstacle_distance\<close> (\<open>None\<close> for
  nan), and the random draws: three standard normal draws for each particle of an
  initialisation and of a motion update, a uniform and three standard normal draws
  for each particle of a resampling.
\<close>

record env =
  matching_odom_pose :: "xy_theta option \<times> real option"
  closest_obstacle_distance :: "real \<Rightarrow> real \<Rightarrow> real option"
  init_draw :: "nat \<Rightarrow> real \<times> real \<times> real"
  odom_draw :: "nat \<Rightarrow> real \<times> real \<times> real"
  resample_draw :: "nat \<Rightarrow> real \<times> real \<times> real \<times> real"

definition normalize_particles :: "pf \<Rightarrow> error + pf" where
  "normalize_particles s =
     (case normalize_cloud (particle_cloud s) of
        Inl err \<Rightarrow> Inl err
      | Inr cloud \<Rightarrow> Inr (s\<lparr>particle_cloud := cloud\<rparr>))"

subsection \<open>The update scheduler's test\<close>

text \<open>
  \<open>moved_far_enough_to_update\<close>: plain differences of the three components.
  Indexing the baseline while it is still the empty list raises IndexError.
\<close>

definition moved_far_enough_to_update :: "pf \<Rightarrow> xy_theta \<Rightarrow> error + bool" where
  "moved_far_enough_to_update s new_odom_xy_theta =
     (case current_odom_xy_theta s of
        None \<Rightarrow> Inl IndexError
      | Some (cx, cy, ct) \<Rightarrow>
          (case new_odom_xy_theta of (nx, ny, nt) \<Rightarrow>
             Inr (\<bar>nx - cx\<bar> > d_thresh s \<or> \<bar>ny - cy\<bar> > d_thresh s
                  \<or> \<bar>nt - ct\<bar> > a_thresh s)))"

subsection \<open>The pose estimator\<close>

text \<open>
  The loop of \<open>update_robot_pose\<close> and the particle it builds:
  \<open>Particle(x_avg, y_avg, theta_avg, 1)\<close>. The sums use the raw weight \<open>w\<close>.
\<close>

definition mean_particle :: "particle list \<Rightarrow> particle" where
  "mean_particle cloud =
     (let x_avg = foldl (\<lambda>a p. a + p_x p * p_w p) 0 cloud;
          y_avg = foldl (\<lambda>a p. a + p_y p * p_w p) 0 cloud;
          cos_avg = foldl (\<lambda>a p. a + cos (p_theta p) * p_w p) 0 cloud;
          sin_avg = foldl (\<lambda>a p. a + sin (p_theta p) * p_w p) 0 cloud;
          theta_avg = arctan2 sin_avg cos_avg
      in Particle x_avg y_avg theta_avg 1)"

definition update_robot_pose :: "pf \<Rightarrow> error + pf" where
  "update_robot_pose s =
     (case normalize_particles s of
        Inl err \<Rightarrow> Inl err
      | Inr s1 \<Rightarrow>
          (let rp = as_pose (mean_particle (particle_cloud s1))
           in case odom_pose s1 of
                Some op \<Rightarrow> Inr (s1\<lparr>robot_pose := Some rp, map_to_odom := Some (rp, op)\<rparr>)
              | None \<Rightarrow> Inr (s1\<lparr>robot_pose := Some rp\<rparr>)))"

subsection \<open>The motion model\<close>

text \<open>The body of the particle loop of \<open>update_particles_with_odom\<close>.\<close>

definition move_particle ::
    "real \<Rightarrow> real \<Rightarrow> real \<Rightarrow> real \<times> real \<times> real \<Rightarrow> particle \<Rightarrow> particle" where
  "move_particle theta1 distance theta2 noise p =
     (case noise of (z1, z2, z3) \<Rightarrow>
        turn (theta2 + z3 * (1 / 100))
          (drive (distance + z2 * (1 / 10))
            (turn (theta1 + z1 * (1 / 100)) p)))"

definition update_particles_with_odom ::
    "(nat \<Rightarrow> real \<times> real \<times> real) \<Rightarrow> pf \<Rightarrow> error + pf" where
  "update_particles_with_odom draw s =
     (case odom_pose s of
        None \<Rightarrow> Inl AttributeError
      | Some new_odom_xy_theta \<Rightarrow>
          (case current_odom_xy_theta s of
             None \<Rightarrow> Inr (s\<lparr>current_odom_xy_theta := Some new_odom_xy_theta\<rparr>)
           | Some old_odom_xy_theta \<Rightarrow>
               (case new_odom_xy_theta of (nx, ny, nt) \<Rightarrow>
                case old_odom_xy_theta of (ox, oy, ot) \<Rightarrow>
                  (let delta0 = nx - ox;
                       delta1 = ny - oy;
                       theta1 = arctan2 delta1 delta0 - ot;
                       distance = sqrt (delta0\<^sup>2 + delta1\<^sup>2);
                       theta2 = nt - arctan2 delta1 delta0
                   in Inr (s\<lparr>current_odom_xy_theta := Some new_odom_xy_theta,
                             particle_cloud :=
                               map (\<lambda>(i, p). move_particle theta1 distance theta2 (draw i) p)
                                 (enumerate 0 (particle_cloud s))\<rparr>)))))"

subsection \<open>The sensor model\<close>

text \<open>One beam of the inner loop of \<open>update_particles_with_laser\<close>.\<close>

fun score_beam ::
    "(real \<Rightarrow> real \<Rightarrow> real option) \<Rightarrow> particle \<Rightarrow> real option \<times> real \<Rightarrow> particle" where
  "score_beam field p (None, theta_i) = p"
| "score_beam field p (Some r_i, theta_i) =
     (case field (r_i * cos (p_theta p + theta_i)) (r_i * sin (p_theta p + theta_i)) of
        None \<Rightarrow> p
      | Some obstacle_dist \<Rightarrow>
          if obstacle_dist < 15 / 100 then p\<lparr>p_w := p_w p + 1\<rparr> else p)"

definition update_particles_with_laser ::
    "(real \<Rightarrow> real \<Rightarrow> real option) \<Rightarrow> real option list \<Rightarrow> real list \<Rightarrow> pf \<Rightarrow> error + pf" where
  "update_particles_with_laser field r theta s =
     normalize_particles
       (s\<lparr>particle_cloud :=
            map (\<lambda>p. foldl (score_beam field) p (zip r theta)) (particle_cloud s)\<rparr>)"

subsection \<open>The resampler\<close>

definition amount_to_keep :: real where
  "amount_to_keep = 25 / 100"

definition position_noise :: real where
  "position_noise = 1 / 12"

definition angle_noise :: real where
  "angle_noise = pi / 24"

text \<open>The elitism stage: \<open>sorted_indexes[worst_keeper_index:self.n_particles-1]\<close>.\<close>

definition best_particle_indexes :: "int \<Rightarrow> particle list \<Rightarrow> nat list" where
  "best_particle_indexes n cloud =
     (let sorted_indexes = argsort (map p_w cloud);
          worst_keeper_index = py_round (of_int n * (1 - amount_to_keep))
      in py_slice sorted_indexes worst_keeper_index (n - 1))"

definition best_particles :: "int \<Rightarrow> particle list \<Rightarrow> particle list" where
  "best_particles n cloud = map (\<lambda>i. cloud ! i) (best_particle_indexes n cloud)"

text \<open>
  One iteration of the regeneration loop. \<open>np.random.normal(m, sd)\<close> is \<open>m\<close> plus
  \<open>sd\<close> times a standard draw. Indexing the cloud at or beyond its length raises
  IndexError. The new particle takes the constructor's default weight.
\<close>

definition new_particle ::
    "particle list \<Rightarrow> real list \<Rightarrow> real \<times> real \<times> real \<times> real \<Rightarrow> error + particle" where
  "new_particle cloud cumulative_probability d =
     (case d of (u, zx, zy, zt) \<Rightarrow>
        (let selection_array = map (\<lambda>c. c > u) cumulative_probability;
             selection_index = searchsorted selection_array True
         in if selection_index < length cloud
            then (let sel = cloud ! selection_index
                  in Inr (Particle (p_x sel + position_noise * zx)
                                   (p_y sel + position_noise * zy)
                                   (p_theta sel + angle_noise * zt)
                                   default_w))
            else Inl IndexError))"

fun new_particles ::
    "particle list \<Rightarrow> real list \<Rightarrow> (nat \<Rightarrow> real \<times> real \<times> real \<times> real) \<Rightarrow> nat list
       \<Rightarrow> error + particle list" where
  "new_particles cloud cp draw [] = Inr []"
| "new_particles cloud cp draw (i # js) =
     (case new_particle cloud cp (draw i) of
        Inl err \<Rightarrow> Inl err
      | Inr p \<Rightarrow>
          (case new_particles cloud cp draw js of
             Inl err \<Rightarrow> Inl err
           | Inr ps \<Rightarrow> Inr (p # ps)))"

text \<open>
  The pruning, the normalization of the survivors, the cumulative probabilities and
  the regeneration loop. The array \<open>probability\<close> holds the doubles \<open>norm_w\<close>: each
  is the quotient that \<open>normalize_particles\<close> computed, rounded to a double (the
  raw weights are whole numbers, so their sum is exact).
\<close>

definition resample_cloud ::
    "int \<Rightarrow> (nat \<Rightarrow> real \<times> real \<times> real \<times> real) \<Rightarrow> particle list \<Rightarrow> error + particle list" where
  "resample_cloud n draw cloud =
     (case normalize_cloud (best_particles n cloud) of
        Inl err \<Rightarrow> Inl err
      | Inr survivors \<Rightarrow>
          (let probability = map (\<lambda>p. round_to_double (p_norm_w p)) survivors;
               cumulative_probability = cumsum probability
           in new_particles survivors cumulative_probability draw [0..<nat n]))"

definition resample_particles ::
    "(nat \<Rightarrow> real \<times> real \<times> real \<times> real) \<Rightarrow> pf \<Rightarrow> error + pf" where
  "resample_particles draw s =
     (case resample_cloud (n_particles s) draw (particle_cloud s) of
        Inl err \<Rightarrow> Inl err
      | Inr cloud \<Rightarrow> Inr (s\<lparr>particle_cloud := cloud\<rparr>))"

subsection \<open>Cloud initialisation\<close>

definition position_sigma :: real where
  "position_sigma = 1 / 6"

definition angle_sigma :: real where
  "angle_sigma = pi / 12"

definition initialize_particle_cloud ::
    "(nat \<Rightarrow> real \<times> real \<times> real) \<Rightarrow> xy_theta option \<Rightarrow> pf \<Rightarrow> error + pf" where
  "initialize_particle_cloud draw xy_theta s =
     (case (case xy_theta of None \<Rightarrow> odom_pose s | Some v \<Rightarrow> Some v) of
        None \<Rightarrow> Inl AttributeError
      | Some (mx, my, mt) \<Rightarrow>
          (let cloud =
                 map (\<lambda>i. case draw i of (zx, zy, zt) \<Rightarrow>
                        Particle (mx + position_sigma * zx) (my + position_sigma * zy)
                                 (mt + angle_sigma * zt) default_w)
                     [0..<nat (n_particles s)]
           in case normalize_particles (s\<lparr>particle_cloud := cloud\<rparr>) of
                Inl err \<Rightarrow> Inl err
              | Inr s1 \<Rightarrow> update_robot_pose s1))"

subsection \<open>Publishing and the main loop\<close>

text \<open>\<open>publish_particles\<close>: each particle goes out with its raw weight \<open>p.w\<close>.\<close>

definition publish_particles :: "int \<Rightarrow> pf \<Rightarrow> pf" where
  "publish_particles timestamp s =
     s\<lparr>published := published s @
          [\<lparr>frame_id = map_frame s, msg_stamp = timestamp,
            msg_particles = map (\<lambda>p. (as_pose p, p_w p)) (particle_cloud s)\<rparr>]\<rparr>"

text \<open>
  The four calls of the branch of \<open>run_loop\<close> taken when the robot has moved far
  enough, in the order of the source.
\<close>

definition tracking_update :: "env \<Rightarrow> real option list \<Rightarrow> real list \<Rightarrow> pf \<Rightarrow> error + pf" where
  "tracking_update e r theta s =
     (case update_particles_with_odom (odom_draw e) s of
        Inl err \<Rightarrow> Inl err
      | Inr s1 \<Rightarrow>
          (case update_particles_with_laser (closest_obstacle_distance e) r theta s1 of
             Inl err \<Rightarrow> Inl err
           | Inr s2 \<Rightarrow>
               (case update_robot_pose s2 of
                  Inl err \<Rightarrow> Inl err
                | Inr s3 \<Rightarrow> resample_particles (resample_draw e) s3)))"

definition run_loop :: "env \<Rightarrow> pf \<Rightarrow> error + pf" where
  "run_loop e s =
     (case scan_to_process s of
        None \<Rightarrow> Inr s
      | Some msg \<Rightarrow>
          (case matching_odom_pose e of
             (None, delta_t) \<Rightarrow>
               (case delta_t of
                  None \<Rightarrow> Inr s
                | Some dt \<Rightarrow> if dt < 0 then Inr (s\<lparr>scan_to_process := None\<rparr>) else Inr s)
           | (Some new_pose, delta_t) \<Rightarrow>
               (let r = scan_r msg;
                    theta = scan_theta msg;
                    s1 = s\<lparr>scan_to_process := None, odom_pose := Some new_pose\<rparr>;
                    new_odom_xy_theta = new_pose;
                    branch =
                      (if current_odom_xy_theta s1 = None
                       then Inr (s1\<lparr>current_odom_xy_theta := Some new_odom_xy_theta\<rparr>)
                       else if particle_cloud s1 = []
                       then initialize_particle_cloud (init_draw e) None s1
                       else (case moved_far_enough_to_update s1 new_odom_xy_theta of
                               Inl err \<Rightarrow> Inl err
                             | Inr moved \<Rightarrow>
                                 if moved then tracking_update e r theta s1 else Inr s1))
                in case branch of
                     Inl err \<Rightarrow> Inl err
                   | Inr s2 \<Rightarrow> Inr (publish_particles (stamp msg) s2))))"

subsection \<open>Example inputs\<close>

text \<open>Noise that is zero for every particle.\<close>

definition zero_noise :: "nat \<Rightarrow> real \<times> real \<times> real" where
  "zero_noise i = (0, 0, 0)"

text \<open>
  One particle at the origin that looks along the y axis; the baseline is \<open>(0,0,0)\<close>
  and the new odometry pose is \<open>(1,0,0)\<close>.
\<close>

definition odom_example :: pf where
  "odom_example =
     pf_init\<lparr>particle_cloud := [Particle 0 0 (pi / 2) 1],
             current_odom_xy_theta := Some (0, 0, 0),
             odom_pose := Some (1, 0, 0)\<rparr>"

text \<open>A tracking filter whose baseline heading is just below \<open>pi\<close>.\<close>

definition wrap_example :: pf where
  "wrap_example =
     pf_init\<lparr>particle_cloud := [Particle 0 0 0 1],
             current_odom_xy_theta := Some (0, 0, pi - 1 / 100)\<rparr>"

text \<open>Two particles of weight 1, with headings just above \<open>-pi\<close> and just below \<open>pi\<close>.\<close>

definition wrap_cloud_example :: pf where
  "wrap_cloud_example =
     pf_init\<lparr>particle_cloud := [Particle 1 2 (- pi + 1 / 100) 1, Particle 3 4 (pi - 1 / 100) 1]\<rparr>"

text \<open>A cloud of 300 particles whose raw weights are 1, 2, ..., 300 in index order.\<close>

definition increasing_cloud :: "particle list" where
  "increasing_cloud = map (\<lambda>i. Particle 0 0 0 (real (Suc i))) [0..<300]"

text \<open>Resampling draws that are all zero: the uniform draw 0 and no jitter.\<close>

definition zero_draw :: "nat \<Rightarrow> real \<times> real \<times> real \<times> real" where
  "zero_draw i = (0, 0, 0, 0)"

text \<open>
  A tracking filter with 300 particles of weight 1 at the origin, the baseline
  \<open>(0,0,0)\<close>, and a pending scan of one beam of range 1 straight ahead.
\<close>

definition tracking_example :: pf where
  "tracking_example =
     pf_init\<lparr>particle_cloud := replicate 300 (Particle 0 0 0 1),
             current_odom_xy_theta := Some (0, 0, 0),
             scan_to_process := Some \<lparr>stamp = 7, scan_r = [Some 1], scan_theta = [0]\<rparr>\<rparr>"

text \<open>
  A cycle in which the robot has moved by 1 m along x, every queried point lies on an
  obstacle, and all noise is zero.
\<close>

definition moving_env :: env where
  "moving_env =
     \<lparr>matching_odom_pose = (Some (1, 0, 0), None),
      closest_obstacle_distance = (\<lambda>a b. Some 0),
      init_draw = zero_noise, odom_draw = zero_noise,
      resample_draw = zero_draw\<rparr>"

text \<open>The tracking example once \<open>run_loop\<close> has cleared the scan and stored the new odometry pose.\<close>

definition aligned_example :: pf where
  "aligned_example = tracking_example\<lparr>scan_to_process := None, odom_pose := Some (1, 0, 0)\<rparr>"

text \<open>
  Resampling draws whose uniform draw is \<open>1 - 2^-53\<close>, the largest double below 1
  (the largest value \<open>np.random.rand\<close> returns), with no jitter.
\<close>

definition top_draw :: "nat \<Rightarrow> real \<times> real \<times> real \<times> real" where
  "top_draw i = (1 - 1 / 2 ^ 53, 0, 0, 0)"

text \<open>
  The tracking example with the baseline heading just below \<open>pi\<close>, and a cycle in
  which the robot is at the same position with a heading just above \<open>-pi\<close>: it has
  turned by 0.02 rad through the wrap-around.
\<close>

definition wrap_tracking_example :: pf where
  "wrap_tracking_example = tracking_example\<lparr>current_odom_xy_theta := Some (0, 0, pi - 1 / 100)\<rparr>"

definition wrap_env :: env where
  "wrap_env = moving_env\<lparr>matching_odom_pose := (Some (0, 0, - pi + 1 / 100), None)\<rparr>"

text \<open>A filter whose two particles have raw weights that differ from their normalized weights.\<close>

definition scored_example :: pf where
  "scored_example =
     pf_init\<lparr>particle_cloud := [(Particle 1 2 0 3)\<lparr>p_norm_w := 3 / 4\<rparr>,
                                (Particle 4 5 0 1)\<lparr>p_norm_w := 1 / 4\<rparr>]\<rparr>"

text \<open>The cycle of \<open>moving_env\<close> with the uniform draws of \<open>top_draw\<close>.\<close>

definition top_env :: env where
  "top_env = moving_env\<lparr>resample_draw := top_draw\<rparr>"

subsection \<open>The update order of the specification\<close>

text \<open>
  The order in which the specification lists the steps of the full update: motion
  model, sensor model (with its normalize), resample, and the pose estimate last.
  It is compared with \<open>tracking_update\<close>, which follows the source.
\<close>

definition tracking_update_spec_order ::
    "env \<Rightarrow> real option list \<Rightarrow> real list \<Rightarrow> pf \<Rightarrow> error + pf" where
  "tracking_update_spec_order e r theta s =
     (case update_particles_with_odom (odom_draw e) s of
        Inl err \<Rightarrow> Inl err
      | Inr s1 \<Rightarrow>
          (case update_particles_with_laser (closest_obstacle_distance e) r theta s1 of
             Inl err \<Rightarrow> Inl err
           | Inr s2 \<Rightarrow>
               (case resample_particles (resample_draw e) s2 of
                  Inl err \<Rightarrow> Inl err
                | Inr s3 \<Rightarrow> update_robot_pose s3)))"

subsection \<open>Helper lemmas\<close>

lemma foldl_add_sum_list:
  "foldl (\<lambda>t p. t + f p) a cloud = a + sum_list (map f cloud)"
  for a :: real
  by (induction cloud arbitrary: a) (simp_all add: add.assoc)

lemma total_weight_sum_list:
  "foldl (\<lambda>t p. t + p_w p) 0 cloud = sum_list (map p_w cloud)"
  by (simp add: foldl_add_sum_list)

lemma sum_list_divide:
  "sum_list (map (\<lambda>p. f p / c) cloud) = sum_list (map f cloud) / c"
  for c :: real
  by (induction cloud) (simp_all add: add_divide_distrib)

lemma arctan2_pos_axis: "0 < a \<Longrightarrow> arctan2 0 a = 0"
  by (simp add: arctan2_def)

lemma move_particle_unit:
  "move_particle 0 1 0 (0, 0, 0) p =
     p\<lparr>p_x := p_x p + cos (p_theta p), p_y := p_y p + sin (p_theta p)\<rparr>"
  by (simp add: move_particle_def turn_def drive_def)

lemma map_enumerate_const:
  "map (\<lambda>(i, p). f p) (enumerate n xs) = map f xs"
  by (induction xs arbitrary: n) simp_all

lemma two_heading_sum:
  assumes "A \<noteq> B"
    and "\<forall>p \<in> set cloud. (p_theta p = A \<or> p_theta p = B) \<and> p_w p = c"
  shows "sum_list (map (\<lambda>p. g (p_theta p) * p_w p) cloud) =
           c * (real (length (filter (\<lambda>p. p_theta p = A) cloud)) * g A
                + real (length (filter (\<lambda>p. p_theta p = B) cloud)) * g B)"
  using assms(2)
proof (induction cloud)
  case Nil
  then show ?case by simp
next
  case (Cons p cloud)
  then show ?case using assms(1) by (auto simp: algebra_simps)
qed

lemma sum_list_const_weight:
  "\<forall>p \<in> set cloud. p_w p = c \<Longrightarrow> sum_list (map p_w cloud) = real (length cloud) * c"
  by (induction cloud) (simp_all add: algebra_simps)

lemma sin_wrap_low: "sin (- pi + a) = - sin a"
  using sin_periodic_pi [of "a - 2 * pi"] sin_periodic [of "a - 2 * pi"]
  by (simp add: algebra_simps)

lemma cos_wrap_low: "cos (- pi + a) = - cos a"
  by (metis add.commute cos_minus cos_pi_minus minus_diff_eq uminus_add_conv_diff)

lemma cos_small_pos: "0 < cos (1 / 100 :: real)"
proof (rule cos_gt_zero_pi)
  have "- (pi / 2) < 0"
    using pi_gt_zero by simp
  then show "- (pi / 2) < (1 / 100 :: real)"
    by linarith
  show "(1 / 100 :: real) < pi / 2"
    using pi_ge_two by simp
qed

lemma arctan2_neg_axis: "a < 0 \<Longrightarrow> arctan2 0 a = pi"
  by (simp add: arctan2_def)

lemma weighted_sum_norm_w_update:
  "sum_list (map (\<lambda>p. g (p_theta p) * p_w p) (map (\<lambda>p. p\<lparr>p_norm_w := v p\<rparr>) cloud)) =
   sum_list (map (\<lambda>p. g (p_theta p) * p_w p) cloud)"
  by (simp add: comp_def)

lemma wrap_cloud_mean_heading:
  assumes "\<forall>p \<in> set cloud.
             (p_theta p = - pi + 1 / 100 \<or> p_theta p = pi - 1 / 100) \<and> p_w p = c"
    and "0 < c"
    and "cloud \<noteq> []"
    and "length (filter (\<lambda>p. p_theta p = - pi + 1 / 100) cloud) =
         length (filter (\<lambda>p. p_theta p = pi - 1 / 100) cloud)"
  shows "p_theta (mean_particle (map (\<lambda>p. p\<lparr>p_norm_w := v p\<rparr>) cloud)) = pi"
proof -
  define A :: real where "A = - pi + 1 / 100"
  define B :: real where "B = pi - 1 / 100"
  define n where "n = length (filter (\<lambda>p. p_theta p = B) cloud)"
  have ne: "A \<noteq> B"
    using pi_ge_two by (simp add: A_def B_def)
  have members: "\<forall>p \<in> set cloud. (p_theta p = A \<or> p_theta p = B) \<and> p_w p = c"
    using assms(1) by (simp add: A_def B_def)
  have nA: "length (filter (\<lambda>p. p_theta p = A) cloud) = n"
    using assms(4) by (simp add: A_def B_def n_def)
  have npos: "0 < n"
  proof (rule ccontr)
    assume "\<not> 0 < n"
    then have "filter (\<lambda>p. p_theta p = B) cloud = []"
      and "filter (\<lambda>p. p_theta p = A) cloud = []"
      using nA by (simp_all add: n_def)
    then have "\<forall>p \<in> set cloud. p_theta p \<noteq> A \<and> p_theta p \<noteq> B"
      by (simp add: filter_empty_conv)
    with members assms(3) show False
      by (metis last_in_set)
  qed
  have sums: "sum_list (map (\<lambda>p. g (p_theta p) * p_w p) cloud) =
                c * (real n * g A + real n * g B)" for g
    using two_heading_sum [OF ne members, of g] by (simp add: nA n_def)
  have sinA: "sin A = - sin (1 / 100)" and cosA: "cos A = - cos (1 / 100)"
    by (simp_all add: A_def sin_wrap_low cos_wrap_low)
  have sinB: "sin B = sin (1 / 100)" and cosB: "cos B = - cos (1 / 100)"
    by (simp_all add: B_def)
  have sin_sum: "sum_list (map (\<lambda>p. sin (p_theta p) * p_w p) cloud) = 0"
    unfolding sums [of sin] sinA sinB by simp
  have "sum_list (map (\<lambda>p. cos (p_theta p) * p_w p) cloud) =
          - (2 * (c * (real n * cos (1 / 100))))"
    unfolding sums [of cos] cosA cosB by (simp add: algebra_simps)
  moreover have "0 < 2 * (c * (real n * cos (1 / 100)))"
    using assms(2) npos cos_small_pos by simp
  ultimately have cos_sum: "sum_list (map (\<lambda>p. cos (p_theta p) * p_w p) cloud) < 0"
    by linarith
  show ?thesis
    using arctan2_neg_axis [OF cos_sum]
    by (simp add: mean_particle_def foldl_add_sum_list Particle_def
        weighted_sum_norm_w_update sin_sum del: map_map)
qed

lemma worst_keeper_index_300: "py_round (of_int 300 * (1 - amount_to_keep)) = 225"
  by (simp add: py_round_def amount_to_keep_def)

lemma kept_count_300: "py_round (300 * amount_to_keep) = 75"
  by (simp add: py_round_def amount_to_keep_def)

lemma length_argsort: "length (argsort ws) = length ws"
  by (simp add: argsort_def)

lemma set_argsort: "set (argsort ws) = {0..<length ws}"
  by (simp add: argsort_def)

lemma argsort_sorted: "sorted ws \<Longrightarrow> argsort ws = [0..<length ws]"
  unfolding argsort_def by (rule sort_key_id_if_sorted) (simp add: map_nth)

lemma py_slice_300:
  "py_slice xs 225 299 = take (min 299 (length xs) - 225) (drop 225 xs)"
proof (cases "225 \<le> length xs")
  case True
  then show ?thesis
    by (simp add: py_slice_def slice_bound_def min_def)
next
  case False
  then show ?thesis
    by (simp add: py_slice_def slice_bound_def min_def)
qed

lemma best_particle_indexes_300:
  "best_particle_indexes 300 cloud =
     take (min 299 (length cloud) - 225) (drop 225 (argsort (map p_w cloud)))"
  using worst_keeper_index_300
  by (simp add: best_particle_indexes_def py_slice_300 length_argsort)

lemma map_nth_map_upt:
  "b \<le> n \<Longrightarrow> map (\<lambda>i. map f [0..<n] ! i) [a..<b] = map f [a..<b]"
  by (rule map_cong) simp_all

lemma sorted_map_real_Suc: "sorted (map (\<lambda>i. real (Suc i)) [a..<b])"
  by (simp add: sorted_map sorted_wrt_iff_nth_less)

lemma length_best_particles_300:
  "length (best_particles 300 cloud) = min 299 (length cloud) - 225"
  by (simp add: best_particles_def best_particle_indexes_300 length_argsort)

lemma set_best_particles: "set (best_particles n cloud) \<subseteq> set cloud"
proof -
  have "set (best_particle_indexes n cloud) \<subseteq> set (argsort (map p_w cloud))"
    by (auto simp: best_particle_indexes_def py_slice_def Let_def
        dest: in_set_takeD in_set_dropD)
  then have "set (best_particle_indexes n cloud) \<subseteq> {0..<length cloud}"
    by (simp add: set_argsort)
  then show ?thesis
    by (auto simp: best_particles_def)
qed

lemma bsearch_left_stop: "\<not> lo < hi \<Longrightarrow> bsearch_left a v lo hi = lo"
  by (subst bsearch_left.simps) simp

lemma bsearch_left_step:
  "lo < hi \<Longrightarrow>
   bsearch_left a v lo hi =
     (if a ! (lo + (hi - lo) div 2) < v
      then bsearch_left a v (lo + (hi - lo) div 2 + 1) hi
      else bsearch_left a v lo (lo + (hi - lo) div 2))"
  by (subst bsearch_left.simps) (simp add: Let_def)

lemma bsearch_left_upper: "lo \<le> hi \<Longrightarrow> bsearch_left a v lo hi \<le> hi"
proof (induction a v lo hi rule: bsearch_left.induct)
  case (1 a v lo hi)
  show ?case
  proof (cases "lo < hi")
    case False
    then show ?thesis
      using "1.prems" by (simp add: bsearch_left_stop)
  next
    case True
    define mid where "mid = lo + (hi - lo) div 2"
    have mid: "lo \<le> mid" "mid < hi"
      using True by (simp_all add: mid_def)
    have step: "bsearch_left a v lo hi =
        (if a ! mid < v then bsearch_left a v (mid + 1) hi else bsearch_left a v lo mid)"
      unfolding mid_def by (rule bsearch_left_step [OF True])
    show ?thesis
    proof (cases "a ! mid < v")
      case below: True
      have "bsearch_left a v (mid + 1) hi \<le> hi"
        using "1.IH"(1) [OF True mid_def below] mid by simp
      moreover have "bsearch_left a v lo hi = bsearch_left a v (mid + 1) hi"
        by (simp only: step below if_True)
      ultimately show ?thesis by simp
    next
      case notbelow: False
      have "bsearch_left a v lo mid \<le> mid"
        using "1.IH"(2) [OF True mid_def notbelow] mid by simp
      moreover have "bsearch_left a v lo hi = bsearch_left a v lo mid"
        by (simp only: step notbelow if_False)
      ultimately show ?thesis using mid by simp
    qed
  qed
qed

lemma bsearch_left_last:
  "lo < hi \<Longrightarrow> \<not> a ! (hi - 1) < v \<Longrightarrow> bsearch_left a v lo hi < hi"
proof (induction a v lo hi rule: bsearch_left.induct)
  case (1 a v lo hi)
  define mid where "mid = lo + (hi - lo) div 2"
  have mid: "lo \<le> mid" "mid < hi"
    using "1.prems"(1) by (simp_all add: mid_def)
  have step: "bsearch_left a v lo hi =
      (if a ! mid < v then bsearch_left a v (mid + 1) hi else bsearch_left a v lo mid)"
    unfolding mid_def by (rule bsearch_left_step [OF "1.prems"(1)])
  show ?case
  proof (cases "a ! mid < v")
    case below: True
    have "mid \<noteq> hi - 1"
    proof
      assume "mid = hi - 1"
      with below "1.prems"(2) show False by (simp only:)
    qed
    then have "mid + 1 < hi"
      using mid by simp
    then have "bsearch_left a v (mid + 1) hi < hi"
      using "1.IH"(1) [OF "1.prems"(1) mid_def below] "1.prems"(2) by blast
    moreover have "bsearch_left a v lo hi = bsearch_left a v (mid + 1) hi"
      by (simp only: step below if_True)
    ultimately show ?thesis by simp
  next
    case notbelow: False
    have "bsearch_left a v lo mid \<le> mid"
      using mid by (simp add: bsearch_left_upper)
    moreover have "bsearch_left a v lo hi = bsearch_left a v lo mid"
      by (simp only: step notbelow if_False)
    ultimately show ?thesis using mid by simp
  qed
qed

lemma searchsorted_last:
  "a \<noteq> [] \<Longrightarrow> last a \<Longrightarrow> searchsorted a True < length a"
  unfolding searchsorted_def
  by (rule bsearch_left_last) (simp_all add: last_conv_nth)

lemma length_cumsum_from: "length (cumsum_from acc vs) = length vs"
  by (induction vs arbitrary: acc) simp_all

lemma py_round_lower: "r - 1 / 2 \<le> of_int (py_round r)"
  unfolding py_round_def Let_def by (simp; linarith)

lemma double_exponent_powr:
  assumes "0 < x"
  shows "2 powr of_int (double_exponent x) \<le> x"
proof -
  have "of_int (double_exponent x) \<le> log 2 x"
    using assms by (simp add: double_exponent_def)
  then have "2 powr of_int (double_exponent x) \<le> 2 powr log 2 x"
    by simp
  then show ?thesis
    using assms by simp
qed

text \<open>Rounding to a double loses at most the relative error \<open>2^-53\<close>.\<close>

lemma round_to_double_lower:
  assumes "0 \<le> x"
  shows "(1 - 1 / 2 ^ 53) * x \<le> round_to_double x"
proof (cases "x = 0")
  case True
  then show ?thesis by (simp add: round_to_double_def)
next
  case False
  then have pos: "0 < x" using assms by simp
  define ulp :: real where "ulp = 2 powr (of_int (double_exponent x) - 52)"
  have ulp_pos: "0 < ulp" by (simp add: ulp_def)
  have "ulp = 2 powr of_int (double_exponent x) / 2 powr 52"
    by (simp add: ulp_def powr_diff)
  also have "\<dots> = 2 powr of_int (double_exponent x) / 2 ^ 52"
    by simp
  also have "\<dots> \<le> x / 2 ^ 52"
    using double_exponent_powr [OF pos] by (simp add: divide_right_mono)
  finally have ulp_le: "ulp \<le> x / 2 ^ 52" .
  have "x / ulp - 1 / 2 \<le> of_int (py_round (x / ulp))"
    by (rule py_round_lower)
  then have "(x / ulp - 1 / 2) * ulp \<le> of_int (py_round (x / ulp)) * ulp"
    using ulp_pos by (simp add: mult_right_mono)
  moreover have "(x / ulp - 1 / 2) * ulp = x - ulp / 2"
    using ulp_pos by (simp add: field_simps)
  moreover have "round_to_double x = of_int (py_round (x / ulp)) * ulp"
    using False by (simp add: round_to_double_def ulp_def Let_def)
  ultimately have "x - ulp / 2 \<le> round_to_double x"
    by simp
  moreover have "(1 - 1 / 2 ^ 53) * x \<le> x - ulp / 2"
    using ulp_le by (simp add: field_simps)
  ultimately show ?thesis by linarith
qed

lemma round_to_double_nonneg: "0 \<le> x \<Longrightarrow> 0 \<le> round_to_double x"
proof -
  assume "0 \<le> x"
  then have "0 \<le> (1 - 1 / 2 ^ 53) * x"
    by simp
  also have "\<dots> \<le> round_to_double x"
    using \<open>0 \<le> x\<close> by (rule round_to_double_lower)
  finally show ?thesis .
qed

lemma powr_neg_nat: "(2::real) powr (- real n) = 1 / 2 ^ n"
  by (simp add: powr_minus powr_realpow inverse_eq_divide)

lemma double_exponent_neg_binade:
  assumes "1 / 2 ^ Suc k \<le> x" and "x < 1 / 2 ^ k"
  shows "double_exponent x = - int (Suc k)"
proof -
  have "(0::real) < 1 / 2 ^ Suc k"
    by simp
  then have pos: "0 < x"
    using assms(1) by linarith
  have a: "2 powr (- real (Suc k)) \<le> x"
    unfolding powr_neg_nat using assms(1) .
  have b: "x < 2 powr (- real k)"
    unfolding powr_neg_nat using assms(2) .
  have "- real (Suc k) \<le> log 2 x"
    using a pos by (subst le_log_iff) simp_all
  moreover have "log 2 x < - real k"
    using b pos by (subst log_less_iff) simp_all
  ultimately have "\<lfloor>log 2 x\<rfloor> = - int (Suc k)"
    by (simp add: floor_eq_iff)
  then show ?thesis
    using pos by (simp add: double_exponent_def)
qed

text \<open>
  \<open>round_to_double\<close> evaluated: a number between \<open>2^-(k+1)\<close> and \<open>2^-k\<close> is rounded
  to a multiple of \<open>2^-(53+k)\<close>.
\<close>

lemma round_to_double_neg_binade:
  assumes "1 / 2 ^ Suc k \<le> x" and "x < 1 / 2 ^ k"
  shows "round_to_double x = of_int (py_round (x * 2 ^ (53 + k))) / 2 ^ (53 + k)"
proof -
  have "(0::real) < 1 / 2 ^ Suc k"
    by simp
  then have pos: "0 < x"
    using assms(1) by linarith
  have "real_of_int (double_exponent x) - 52 = - real (53 + k)"
    using double_exponent_neg_binade [OF assms] by simp
  then have "(2::real) powr (of_int (double_exponent x) - 52) = 1 / 2 ^ (53 + k)"
    by (simp only: powr_neg_nat)
  then show ?thesis
    using pos by (simp add: round_to_double_def Let_def)
qed

lemma length_cumsum: "length (cumsum vs) = length vs"
  by (simp add: cumsum_def length_cumsum_from)

lemma last_cumsum_from_lower:
  assumes "vs \<noteq> []" and "0 \<le> acc" and "\<forall>v \<in> set vs. 0 \<le> v"
  shows "(1 - 1 / 2 ^ 53) ^ length vs * (acc + sum_list vs) \<le> last (cumsum_from acc vs)"
  using assms
proof (induction vs arbitrary: acc)
  case Nil
  then show ?case by simp
next
  case (Cons v vs)
  define r :: real where "r = 1 - 1 / 2 ^ 53"
  have r: "0 \<le> r" "r \<le> 1"
    by (simp_all add: r_def)
  define c where "c = round_to_double (acc + v)"
  have av: "0 \<le> acc + v"
    using Cons.prems by simp
  have c_low: "r * (acc + v) \<le> c"
    unfolding r_def c_def using av by (rule round_to_double_lower)
  have c_nonneg: "0 \<le> c"
    unfolding c_def using av by (rule round_to_double_nonneg)
  show ?case
  proof (cases "vs = []")
    case True
    then show ?thesis
      using c_low by (simp add: r_def c_def)
  next
    case False
    have rest: "\<forall>w \<in> set vs. 0 \<le> w"
      using Cons.prems by simp
    then have sum_nonneg: "0 \<le> sum_list vs"
      by (simp add: sum_list_nonneg)
    have ne: "cumsum_from c vs \<noteq> []"
      using False by (cases vs) simp_all
    have "r * (acc + v + sum_list vs) = r * (acc + v) + r * sum_list vs"
      by (simp add: algebra_simps)
    also have "\<dots> \<le> c + sum_list vs"
    proof -
      have "r * sum_list vs \<le> 1 * sum_list vs"
        using r(2) sum_nonneg by (intro mult_right_mono)
      then show ?thesis
        using c_low by simp
    qed
    finally have "r ^ length vs * (r * (acc + v + sum_list vs)) \<le> r ^ length vs * (c + sum_list vs)"
      using r(1) by (intro mult_left_mono) simp_all
    also have "\<dots> \<le> last (cumsum_from c vs)"
      unfolding r_def using False c_nonneg rest by (rule Cons.IH)
    finally have "r ^ length (v # vs) * (acc + sum_list (v # vs)) \<le> last (cumsum_from c vs)"
      by (simp add: algebra_simps)
    then show ?thesis
      using ne by (simp add: r_def c_def)
  qed
qed

lemma last_cumulative_lower:
  assumes "vs \<noteq> []" and "\<forall>v \<in> set vs. 0 \<le> v"
  shows "(1 - 1 / 2 ^ 53) ^ Suc (length vs) * sum_list vs
           \<le> last (cumsum (map round_to_double vs))"
proof -
  define r :: real where "r = 1 - 1 / 2 ^ 53"
  have r: "0 \<le> r"
    by (simp add: r_def)
  have "sum_list (map (\<lambda>v. r * v) vs) \<le> sum_list (map round_to_double vs)"
    using assms(2) unfolding r_def by (intro sum_list_mono round_to_double_lower) simp
  then have low: "r * sum_list vs \<le> sum_list (map round_to_double vs)"
    by (simp add: sum_list_const_mult)
  have "r ^ Suc (length vs) * sum_list vs = r ^ length vs * (r * sum_list vs)"
    by simp
  also have "\<dots> \<le> r ^ length vs * (0 + sum_list (map round_to_double vs))"
    using low r by (intro mult_left_mono) simp_all
  also have "\<dots> \<le> last (cumsum_from 0 (map round_to_double vs))"
    using last_cumsum_from_lower [of "map round_to_double vs" 0] assms
    by (simp add: r_def round_to_double_nonneg)
  finally show ?thesis
    by (simp add: r_def cumsum_def)
qed

lemma last_cumulative_pos:
  assumes "vs \<noteq> []" and "\<forall>v \<in> set vs. 0 \<le> v" and "0 < sum_list vs"
  shows "0 < last (cumsum (map round_to_double vs))"
proof -
  have "(0::real) < (1 - 1 / 2 ^ 53) ^ Suc (length vs) * sum_list vs"
    using assms(3) by (intro mult_pos_pos zero_less_power) simp_all
  then show ?thesis
    using last_cumulative_lower [OF assms(1,2)] by linarith
qed

text \<open>
  With fewer than 127 probabilities that sum to 1, the last rounded running sum is
  above \<open>1 - 2^-46\<close>.
\<close>

lemma last_cumulative_near_one:
  assumes "vs \<noteq> []" and "\<forall>v \<in> set vs. 0 \<le> v" and "sum_list vs = 1"
    and "length vs < 127"
  shows "1 - 1 / 2 ^ 46 < last (cumsum (map round_to_double vs))"
proof -
  define n where "n = Suc (length vs)"
  have n: "real n \<le> 127"
    using assms(4) by (simp add: n_def)
  have "1 + real n * (- (1 / 2 ^ 53)) \<le> (1 + - (1 / 2 ^ 53)) ^ n"
    by (rule Bernoulli_inequality) simp
  then have "1 - real n / 2 ^ 53 \<le> (1 - 1 / 2 ^ 53) ^ n"
    by simp
  moreover have "real n / 2 ^ 53 \<le> 127 / 2 ^ 53"
    using n by (simp add: divide_right_mono)
  moreover have "(1 - 1 / 2 ^ 53) ^ n \<le> last (cumsum (map round_to_double vs))"
    using last_cumulative_lower [OF assms(1,2)] assms(3) by (simp add: n_def)
  ultimately show ?thesis
    by simp
qed

lemma sum_list_pos_weights:
  "cloud \<noteq> [] \<Longrightarrow> \<forall>p \<in> set cloud. 0 < p_w p \<Longrightarrow> 0 < sum_list (map p_w cloud)"
proof (induction cloud)
  case Nil
  then show ?case by simp
next
  case (Cons p cloud)
  show ?case
  proof (cases "cloud = []")
    case True
    with Cons.prems show ?thesis by simp
  next
    case False
    with Cons show ?thesis by (simp add: add_pos_pos)
  qed
qed

lemma normalize_cloud_ok:
  assumes "cloud \<noteq> []" and "sum_list (map p_w cloud) \<noteq> 0"
  shows "normalize_cloud cloud =
           Inr (map (\<lambda>p. p\<lparr>p_norm_w := p_w p / sum_list (map p_w cloud)\<rparr>) cloud)"
  using assms by (simp add: normalize_cloud_def total_weight_sum_list)

lemma sum_norm_w_normalized:
  assumes "sum_list (map p_w cloud) \<noteq> 0"
  shows "sum_list (map p_norm_w
            (map (\<lambda>p. p\<lparr>p_norm_w := p_w p / sum_list (map p_w cloud)\<rparr>) cloud)) = 1"
proof -
  have "sum_list (map (\<lambda>p. p_w p / sum_list (map p_w cloud)) cloud) =
          sum_list (map p_w cloud) / sum_list (map p_w cloud)"
    by (rule sum_list_divide)
  then show ?thesis
    using assms by (simp add: comp_def)
qed

lemma new_particle_ok:
  assumes "cloud \<noteq> []" and "length cp = length cloud" and "u < last cp"
  shows "\<exists>p. new_particle cloud cp (u, zx, zy, zt) = Inr p \<and> p_w p = default_w"
proof -
  let ?sel = "map (\<lambda>c. c > u) cp"
  have ne: "cp \<noteq> []"
    using assms(1,2) by auto
  then have "last ?sel"
    using assms(3) by (simp add: last_map)
  then have "searchsorted ?sel True < length ?sel"
    using ne by (intro searchsorted_last) simp_all
  then have "searchsorted ?sel True < length cloud"
    using assms(2) by simp
  then show ?thesis
    by (simp add: new_particle_def Let_def Particle_def)
qed

lemma new_particles_ok:
  assumes "\<forall>i \<in> set js. \<exists>p. new_particle cloud cp (draw i) = Inr p \<and> p_w p = default_w"
  shows "\<exists>ps. new_particles cloud cp draw js = Inr ps \<and> length ps = length js
           \<and> (\<forall>p \<in> set ps. p_w p = default_w)"
  using assms
proof (induction js)
  case Nil
  then show ?case by simp
next
  case (Cons j js)
  obtain p where p: "new_particle cloud cp (draw j) = Inr p" "p_w p = default_w"
    using Cons.prems by auto
  obtain ps where ps: "new_particles cloud cp draw js = Inr ps" "length ps = length js"
      "\<forall>q \<in> set ps. p_w q = default_w"
    using Cons.IH Cons.prems by auto
  show ?case
    using p ps by simp
qed

lemma new_particles_length:
  "new_particles cloud cp draw js = Inr ps \<Longrightarrow> length ps = length js"
proof (induction js arbitrary: ps)
  case Nil
  then show ?case by simp
next
  case (Cons j js)
  then show ?case
    by (auto split: sum.splits)
qed

lemma resample_cloud_ok:
  assumes "best_particles n cloud \<noteq> []"
    and "\<forall>p \<in> set (best_particles n cloud). 0 < p_w p"
    and "length (best_particles n cloud) < 127"
    and "\<forall>i. fst (draw i) \<le> 1 - 1 / 2 ^ 46"
  shows "\<exists>ps. resample_cloud n draw cloud = Inr ps \<and> length ps = nat n
           \<and> (\<forall>p \<in> set ps. p_w p = default_w)"
proof -
  let ?best = "best_particles n cloud"
  let ?t = "sum_list (map p_w ?best)"
  let ?surv = "map (\<lambda>p. p\<lparr>p_norm_w := p_w p / ?t\<rparr>) ?best"
  let ?vs = "map p_norm_w ?surv"
  let ?cp = "cumsum (map (\<lambda>p. round_to_double (p_norm_w p)) ?surv)"
  have tpos: "0 < ?t"
    using assms(1,2) by (rule sum_list_pos_weights)
  then have tne: "?t \<noteq> 0"
    by simp
  have norm: "normalize_cloud ?best = Inr ?surv"
    using assms(1) tne by (rule normalize_cloud_ok)
  have surv_ne: "?surv \<noteq> []"
    using assms(1) by simp
  have cp: "?cp = cumsum (map round_to_double ?vs)"
    by (simp add: comp_def)
  have len: "length ?cp = length ?surv"
    by (simp add: length_cumsum)
  have vs_ne: "?vs \<noteq> []"
    using assms(1) by simp
  have vs_nonneg: "\<forall>v \<in> set ?vs. 0 \<le> v"
    using assms(2) tpos by (auto simp: less_imp_le)
  have vs_sum: "sum_list ?vs = 1"
    using tne by (rule sum_norm_w_normalized)
  have vs_len: "length ?vs < 127"
    using assms(3) by simp
  have last1: "1 - 1 / 2 ^ 46 < last ?cp"
    unfolding cp using vs_ne vs_nonneg vs_sum vs_len by (rule last_cumulative_near_one)
  have each: "\<exists>p. new_particle ?surv ?cp (draw i) = Inr p \<and> p_w p = default_w" for i
  proof -
    obtain u zx zy zt where d: "draw i = (u, zx, zy, zt)"
      by (cases "draw i") auto
    have "u \<le> 1 - 1 / 2 ^ 46"
      using assms(4) d by (metis fst_conv)
    then have "u < last ?cp"
      using last1 by linarith
    then show ?thesis
      unfolding d using surv_ne len by (intro new_particle_ok)
  qed
  then have "\<exists>ps. new_particles ?surv ?cp draw [0..<nat n] = Inr ps
      \<and> length ps = length [0..<nat n] \<and> (\<forall>p \<in> set ps. p_w p = default_w)"
    by (intro new_particles_ok) blast
  then show ?thesis
    using norm by (simp add: resample_cloud_def Let_def)
qed

lemma normalize_cloud_replicate:
  assumes "0 < n" and "p_w p \<noteq> 0"
  shows "normalize_cloud (replicate n p) =
           Inr (replicate n (p\<lparr>p_norm_w := p_w p / (real n * p_w p)\<rparr>))"
  using assms
  by (simp add: normalize_cloud_def total_weight_sum_list sum_list_replicate)

lemma mean_particle_replicate:
  "mean_particle (replicate n p) =
     Particle (real n * (p_x p * p_w p)) (real n * (p_y p * p_w p))
       (arctan2 (real n * (sin (p_theta p) * p_w p)) (real n * (cos (p_theta p) * p_w p))) 1"
  by (simp add: mean_particle_def foldl_add_sum_list sum_list_replicate)

lemma map_nth_replicate_upt:
  "b \<le> n \<Longrightarrow> map (\<lambda>i. replicate n p ! i) [a..<b] = replicate (b - a) p"
proof -
  assume "b \<le> n"
  then have "map (\<lambda>i. replicate n p ! i) [a..<b] = map (\<lambda>i. p) [a..<b]"
    by (intro map_cong) simp_all
  then show ?thesis
    by (simp add: map_replicate_const)
qed

lemma best_particles_replicate_300:
  "best_particles 300 (replicate 300 p) = replicate 74 p"
proof -
  have "argsort (map p_w (replicate 300 p)) = [0..<300]"
    using argsort_sorted [of "replicate 300 (p_w p)"] by simp
  then have idx: "best_particle_indexes 300 (replicate 300 p) = [225..<299]"
    by (simp add: best_particle_indexes_300 del: upt_rec_numeral)
  show ?thesis
    unfolding best_particles_def idx
    using map_nth_replicate_upt [of 299 300 p 225] by simp
qed

lemma new_particles_const:
  assumes "\<forall>i \<in> set js. new_particle cloud cp (draw i) = Inr q"
  shows "new_particles cloud cp draw js = Inr (replicate (length js) q)"
  using assms by (induction js) simp_all

lemma new_particle_replicate:
  assumes "0 < n" and "0 < p_norm_w p"
  shows "new_particle (replicate n p)
           (cumsum (map (\<lambda>p. round_to_double (p_norm_w p)) (replicate n p))) (0, 0, 0, 0) =
           Inr (Particle (p_x p) (p_y p) (p_theta p) default_w)"
proof -
  let ?cp = "cumsum (map (\<lambda>p. round_to_double (p_norm_w p)) (replicate n p))"
  let ?sel = "map (\<lambda>c. c > 0) ?cp"
  have cp: "?cp = cumsum (map round_to_double (replicate n (p_norm_w p)))"
    by simp
  have "0 < real n * p_norm_w p"
    using assms by simp
  then have "0 < last (cumsum (map round_to_double (replicate n (p_norm_w p))))"
    using assms by (intro last_cumulative_pos) (simp_all add: sum_list_replicate)
  then have "0 < last ?cp"
    unfolding cp .
  moreover have cp_ne: "?cp \<noteq> []"
    using assms(1) length_cumsum [of "map (\<lambda>p. round_to_double (p_norm_w p)) (replicate n p)"]
    by auto
  ultimately have "last ?sel"
    by (simp add: last_map)
  then have "searchsorted ?sel True < length ?sel"
    using cp_ne by (intro searchsorted_last) simp_all
  then have idx: "searchsorted ?sel True < n"
    by (simp add: length_cumsum)
  then show ?thesis
    by (simp add: new_particle_def Let_def)
qed

lemma resample_cloud_replicate_300:
  assumes "0 < p_w p"
  shows "resample_cloud 300 zero_draw (replicate 300 p) =
           Inr (replicate 300 (Particle (p_x p) (p_y p) (p_theta p) default_w))"
proof -
  define q where "q = p\<lparr>p_norm_w := p_w p / (real 74 * p_w p)\<rparr>"
  define new where "new = Particle (p_x p) (p_y p) (p_theta p) default_w"
  define cp where "cp = cumsum (map (\<lambda>p. round_to_double (p_norm_w p)) (replicate 74 q))"
  have norm: "normalize_cloud (best_particles 300 (replicate 300 p)) = Inr (replicate 74 q)"
    unfolding best_particles_replicate_300 q_def using assms
    by (intro normalize_cloud_replicate) simp_all
  have "0 < p_norm_w q"
    using assms by (simp add: q_def)
  then have "new_particle (replicate 74 q) cp (0, 0, 0, 0) =
      Inr (Particle (p_x q) (p_y q) (p_theta q) default_w)"
    unfolding cp_def by (intro new_particle_replicate) simp_all
  then have one: "new_particle (replicate 74 q) cp (zero_draw i) = Inr new" for i
    by (simp add: zero_draw_def new_def q_def)
  have "new_particles (replicate 74 q) cp zero_draw [0..<nat 300] =
      Inr (replicate (length [0..<nat 300]) new)"
    by (rule new_particles_const) (rule ballI, rule one)
  then have "new_particles (replicate 74 q) cp zero_draw [0..<nat 300] = Inr (replicate 300 new)"
    by (simp del: upt_rec_numeral)
  then show ?thesis
    unfolding resample_cloud_def norm new_def cp_def by (simp add: Let_def del: upt_rec_numeral)
qed

lemma example_odom:
  "update_particles_with_odom zero_noise aligned_example =
     Inr (aligned_example\<lparr>current_odom_xy_theta := Some (1, 0, 0),
            particle_cloud := replicate 300 (Particle 1 0 0 1)\<rparr>)"
  by (simp add: update_particles_with_odom_def aligned_example_def tracking_example_def
      pf_init_def zero_noise_def arctan2_def move_particle_def turn_def drive_def
      Particle_def map_enumerate_const)

lemma example_laser:
  "update_particles_with_laser (\<lambda>a b. Some 0) [Some 1] [0]
     (s\<lparr>particle_cloud := replicate 300 (Particle 1 0 0 1)\<rparr>) =
     Inr (s\<lparr>particle_cloud := replicate 300 ((Particle 1 0 0 2)\<lparr>p_norm_w := 1 / 300\<rparr>)\<rparr>)"
proof -
  have "normalize_cloud (replicate 300 (Particle 1 0 0 2)) =
          Inr (replicate 300 ((Particle 1 0 0 2)\<lparr>p_norm_w := 1 / 300\<rparr>))"
    using normalize_cloud_replicate [of 300 "Particle 1 0 0 2"]
    by (simp add: Particle_def)
  then show ?thesis
    by (simp add: update_particles_with_laser_def normalize_particles_def Particle_def)
qed

lemma update_robot_pose_replicate:
  assumes "particle_cloud s = replicate 300 p"
    and "odom_pose s = Some op" and "p_theta p = 0" and "0 < p_w p"
  shows "\<exists>s'. update_robot_pose s = Inr s'
           \<and> particle_cloud s' = replicate 300 (p\<lparr>p_norm_w := p_w p / (300 * p_w p)\<rparr>)
           \<and> robot_pose s' = Some \<lparr>pos_x = 300 * (p_x p * p_w p),
                                    pos_y = 300 * (p_y p * p_w p), pos_z = 0, yaw = 0\<rparr>"
proof -
  let ?q = "p\<lparr>p_norm_w := p_w p / (300 * p_w p)\<rparr>"
  have "normalize_cloud (replicate 300 p) = Inr (replicate 300 ?q)"
    using normalize_cloud_replicate [of 300 p] assms(4) by simp
  then have norm: "normalize_particles s = Inr (s\<lparr>particle_cloud := replicate 300 ?q\<rparr>)"
    using assms(1) by (simp add: normalize_particles_def)
  have "arctan2 (300 * (sin (p_theta ?q) * p_w ?q)) (300 * (cos (p_theta ?q) * p_w ?q)) = 0"
    using assms(3,4) by (simp add: arctan2_pos_axis)
  then have "as_pose (mean_particle (replicate 300 ?q)) =
      \<lparr>pos_x = 300 * (p_x p * p_w p), pos_y = 300 * (p_y p * p_w p), pos_z = 0, yaw = 0\<rparr>"
    by (simp add: mean_particle_replicate as_pose_def Particle_def)
  then show ?thesis
    using norm assms(2) by (simp add: update_robot_pose_def Let_def)
qed

lemma resample_particles_replicate_300:
  assumes "particle_cloud s = replicate 300 p" and "n_particles s = 300" and "0 < p_w p"
  shows "resample_particles zero_draw s =
           Inr (s\<lparr>particle_cloud :=
                    replicate 300 (Particle (p_x p) (p_y p) (p_theta p) default_w)\<rparr>)"
  using assms resample_cloud_replicate_300 [of p]
  by (simp add: resample_particles_def)

lemma p_w_move_particle: "p_w (move_particle t1 d t2 nz p) = p_w p"
  by (cases nz) (simp add: move_particle_def turn_def drive_def)

lemma p_w_score_beam: "p_w p \<le> p_w (score_beam field p beam)"
  by (cases "(field, p, beam)" rule: score_beam.cases) (auto split: option.splits)

lemma p_w_scan: "p_w p \<le> p_w (foldl (score_beam field) p beams)"
proof (induction beams arbitrary: p)
  case Nil
  then show ?case by simp
next
  case (Cons b beams)
  have "p_w p \<le> p_w (score_beam field p b)"
    by (rule p_w_score_beam)
  also have "\<dots> \<le> p_w (foldl (score_beam field) (score_beam field p b) beams)"
    by (rule Cons.IH)
  finally show ?case by simp
qed

lemma odom_step_ok:
  assumes "odom_pose s = Some new" and "current_odom_xy_theta s = Some cur"
    and "\<forall>p \<in> set (particle_cloud s). 0 < p_w p"
  shows "\<exists>cloud'. update_particles_with_odom draw s =
             Inr (s\<lparr>current_odom_xy_theta := Some new, particle_cloud := cloud'\<rparr>)
           \<and> length cloud' = length (particle_cloud s)
           \<and> (\<forall>p \<in> set cloud'. 0 < p_w p)"
proof -
  obtain nx ny nt where new: "new = (nx, ny, nt)"
    by (cases new) auto
  obtain ox oy ot where cur: "cur = (ox, oy, ot)"
    by (cases cur) auto
  define cloud' where "cloud' =
    map (\<lambda>(i, p). move_particle (arctan2 (ny - oy) (nx - ox) - ot)
                    (sqrt ((nx - ox)\<^sup>2 + (ny - oy)\<^sup>2))
                    (nt - arctan2 (ny - oy) (nx - ox)) (draw i) p)
        (enumerate 0 (particle_cloud s))"
  have run: "update_particles_with_odom draw s =
      Inr (s\<lparr>current_odom_xy_theta := Some new, particle_cloud := cloud'\<rparr>)"
    using assms(1,2) by (simp add: update_particles_with_odom_def new cur cloud'_def Let_def)
  have len: "length cloud' = length (particle_cloud s)"
    by (simp add: cloud'_def)
  have "\<forall>p \<in> set cloud'. 0 < p_w p"
    using assms(3) by (auto simp: cloud'_def p_w_move_particle in_set_enumerate_eq)
  with run len show ?thesis by blast
qed

lemma laser_step_ok:
  assumes "particle_cloud s \<noteq> []" and "\<forall>p \<in> set (particle_cloud s). 0 < p_w p"
  shows "\<exists>cloud'. update_particles_with_laser field r theta s = Inr (s\<lparr>particle_cloud := cloud'\<rparr>)
           \<and> length cloud' = length (particle_cloud s)
           \<and> (\<forall>p \<in> set cloud'. 0 < p_w p)"
proof -
  define scored where
    "scored = map (\<lambda>p. foldl (score_beam field) p (zip r theta)) (particle_cloud s)"
  have ne: "scored \<noteq> []"
    using assms(1) by (simp add: scored_def)
  have pos: "\<forall>p \<in> set scored. 0 < p_w p"
  proof
    fix p assume "p \<in> set scored"
    then obtain q where q: "q \<in> set (particle_cloud s)"
        "p = foldl (score_beam field) q (zip r theta)"
      by (auto simp: scored_def)
    have "0 < p_w q" using assms(2) q(1) by blast
    also have "p_w q \<le> p_w p" unfolding q(2) by (rule p_w_scan)
    finally show "0 < p_w p" .
  qed
  have "sum_list (map p_w scored) \<noteq> 0"
    using sum_list_pos_weights [OF ne pos] by simp
  then have norm: "normalize_cloud scored =
      Inr (map (\<lambda>p. p\<lparr>p_norm_w := p_w p / sum_list (map p_w scored)\<rparr>) scored)"
    using ne by (intro normalize_cloud_ok)
  define cloud' where
    "cloud' = map (\<lambda>p. p\<lparr>p_norm_w := p_w p / sum_list (map p_w scored)\<rparr>) scored"
  have "update_particles_with_laser field r theta s = Inr (s\<lparr>particle_cloud := cloud'\<rparr>)"
    using norm
    by (simp add: update_particles_with_laser_def normalize_particles_def scored_def cloud'_def)
  moreover have "length cloud' = length (particle_cloud s)"
    by (simp add: cloud'_def scored_def)
  moreover have "\<forall>p \<in> set cloud'. 0 < p_w p"
    using pos by (auto simp: cloud'_def)
  ultimately show ?thesis by blast
qed

lemma pose_step_ok:
  assumes "particle_cloud s \<noteq> []" and "\<forall>p \<in> set (particle_cloud s). 0 < p_w p"
    and "odom_pose s = Some op"
  shows "\<exists>cloud' rp. update_robot_pose s =
             Inr (s\<lparr>particle_cloud := cloud', robot_pose := Some rp, map_to_odom := Some (rp, op)\<rparr>)
           \<and> rp = as_pose (mean_particle cloud')
           \<and> length cloud' = length (particle_cloud s)
           \<and> (\<forall>p \<in> set cloud'. 0 < p_w p)"
proof -
  define cloud' where "cloud' =
    map (\<lambda>p. p\<lparr>p_norm_w := p_w p / sum_list (map p_w (particle_cloud s))\<rparr>) (particle_cloud s)"
  have "sum_list (map p_w (particle_cloud s)) \<noteq> 0"
    using sum_list_pos_weights [OF assms(1,2)] by simp
  then have "normalize_cloud (particle_cloud s) = Inr cloud'"
    unfolding cloud'_def using assms(1) by (intro normalize_cloud_ok)
  then have "update_robot_pose s =
      Inr (s\<lparr>particle_cloud := cloud', robot_pose := Some (as_pose (mean_particle cloud')),
             map_to_odom := Some (as_pose (mean_particle cloud'), op)\<rparr>)"
    using assms(3) by (simp add: update_robot_pose_def normalize_particles_def Let_def)
  moreover have "length cloud' = length (particle_cloud s)"
    by (simp add: cloud'_def)
  moreover have "\<forall>p \<in> set cloud'. 0 < p_w p"
    using assms(2) by (auto simp: cloud'_def)
  ultimately show ?thesis by blast
qed

lemma best_particles_nonempty_300:
  "225 < length cloud \<Longrightarrow> best_particles 300 cloud \<noteq> []"
  using length_best_particles_300 [of cloud] by (cases "best_particles 300 cloud") auto

lemma resample_step_ok:
  assumes "n_particles s = 300" and "225 < length (particle_cloud s)"
    and "\<forall>p \<in> set (particle_cloud s). 0 < p_w p"
    and "\<forall>i. fst (draw i) \<le> 1 - 1 / 2 ^ 46"
  shows "\<exists>cloud'. resample_particles draw s = Inr (s\<lparr>particle_cloud := cloud'\<rparr>)
           \<and> length cloud' = 300 \<and> (\<forall>p \<in> set cloud'. p_w p = default_w)"
proof -
  let ?best = "best_particles 300 (particle_cloud s)"
  have ne: "?best \<noteq> []"
    using assms(2) by (rule best_particles_nonempty_300)
  have pos: "\<forall>p \<in> set ?best. 0 < p_w p"
    using assms(3) set_best_particles [of 300 "particle_cloud s"] by blast
  have short: "length ?best < 127"
    by (simp add: length_best_particles_300)
  obtain ps where ps: "resample_cloud 300 draw (particle_cloud s) = Inr ps"
      "length ps = nat 300" "\<forall>p \<in> set ps. p_w p = default_w"
    using resample_cloud_ok [OF ne pos short assms(4)] by blast
  have "resample_particles draw s = Inr (s\<lparr>particle_cloud := ps\<rparr>)"
    using assms(1) ps(1) by (simp add: resample_particles_def)
  then show ?thesis
    using ps(2,3) by (intro exI [of _ ps]) simp
qed

lemma run_loop_moved:
  assumes "scan_to_process s = Some msg"
    and "matching_odom_pose e = (Some new, dt)"
    and "current_odom_xy_theta s = Some cur"
    and "particle_cloud s \<noteq> []"
    and "moved_far_enough_to_update s new = Inr True"
  shows "run_loop e s =
           (case tracking_update e (scan_r msg) (scan_theta msg)
                   (s\<lparr>scan_to_process := None, odom_pose := Some new\<rparr>) of
              Inl err \<Rightarrow> Inl err
            | Inr s2 \<Rightarrow> Inr (publish_particles (stamp msg) s2))"
proof -
  have "moved_far_enough_to_update (s\<lparr>scan_to_process := None, odom_pose := Some new\<rparr>) new =
          moved_far_enough_to_update s new"
    by (simp add: moved_far_enough_to_update_def split: option.splits prod.splits)
  then show ?thesis
    using assms by (simp add: run_loop_def Let_def)
qed

lemma tracking_update_chain:
  assumes "odom_pose s = Some new" and "current_odom_xy_theta s = Some cur"
    and "n_particles s = 300" and "225 < length (particle_cloud s)"
    and "\<forall>p \<in> set (particle_cloud s). 0 < p_w p"
    and "\<forall>i. fst (resample_draw e i) \<le> 1 - 1 / 2 ^ 46"
  shows "\<exists>s1 s2 s3 s4.
           update_particles_with_odom (odom_draw e) s = Inr s1
         \<and> update_particles_with_laser (closest_obstacle_distance e) r theta s1 = Inr s2
         \<and> update_robot_pose s2 = Inr s3
         \<and> resample_particles (resample_draw e) s3 = Inr s4
         \<and> tracking_update e r theta s = Inr s4
         \<and> robot_pose s4 = Some (as_pose (mean_particle (particle_cloud s3)))
         \<and> current_odom_xy_theta s4 = Some new
         \<and> length (particle_cloud s4) = 300
         \<and> (\<forall>p \<in> set (particle_cloud s4). p_w p = default_w)
         \<and> published s4 = published s \<and> map_frame s4 = map_frame s"
proof -
  obtain c1 where c1:
      "update_particles_with_odom (odom_draw e) s =
         Inr (s\<lparr>current_odom_xy_theta := Some new, particle_cloud := c1\<rparr>)"
      "length c1 = length (particle_cloud s)" "\<forall>p \<in> set c1. 0 < p_w p"
    using odom_step_ok [OF assms(1,2,5)] by blast
  define s1 where "s1 = s\<lparr>current_odom_xy_theta := Some new, particle_cloud := c1\<rparr>"
  have s1: "particle_cloud s1 = c1" "odom_pose s1 = Some new" "n_particles s1 = 300"
    using assms(1,3) by (simp_all add: s1_def)
  have c1_ne: "particle_cloud s1 \<noteq> []"
    using c1(2) assms(4) s1(1) by auto
  obtain c2 where c2:
      "update_particles_with_laser (closest_obstacle_distance e) r theta s1 =
         Inr (s1\<lparr>particle_cloud := c2\<rparr>)"
      "length c2 = length (particle_cloud s1)" "\<forall>p \<in> set c2. 0 < p_w p"
    using laser_step_ok [OF c1_ne] c1(3) s1(1) by metis
  define s2 where "s2 = s1\<lparr>particle_cloud := c2\<rparr>"
  have s2: "particle_cloud s2 = c2" "odom_pose s2 = Some new" "n_particles s2 = 300"
    using s1 by (simp_all add: s2_def)
  have c2_ne: "particle_cloud s2 \<noteq> []"
    using c2(2) c1_ne s2(1) by auto
  obtain c3 rp where c3:
      "update_robot_pose s2 =
         Inr (s2\<lparr>particle_cloud := c3, robot_pose := Some rp, map_to_odom := Some (rp, new)\<rparr>)"
      "rp = as_pose (mean_particle c3)"
      "length c3 = length (particle_cloud s2)" "\<forall>p \<in> set c3. 0 < p_w p"
    using pose_step_ok [OF c2_ne _ s2(2)] c2(3) s2(1) by metis
  define s3 where
    "s3 = s2\<lparr>particle_cloud := c3, robot_pose := Some rp, map_to_odom := Some (rp, new)\<rparr>"
  have s3: "particle_cloud s3 = c3" "n_particles s3 = 300" "robot_pose s3 = Some rp"
    using s2 by (simp_all add: s3_def)
  have len3: "225 < length (particle_cloud s3)"
    using c3(3) c2(2) c1(2) s1(1) s2(1) s3(1) assms(4) by simp
  obtain c4 where c4:
      "resample_particles (resample_draw e) s3 = Inr (s3\<lparr>particle_cloud := c4\<rparr>)"
      "length c4 = 300" "\<forall>p \<in> set c4. p_w p = default_w"
    using resample_step_ok [OF s3(2) len3 _ assms(6)] c3(4) s3(1) by metis
  define s4 where "s4 = s3\<lparr>particle_cloud := c4\<rparr>"
  have run: "tracking_update e r theta s = Inr s4"
    using c1(1) c2(1) c3(1) c4(1)
    by (simp add: tracking_update_def s1_def [symmetric] s2_def [symmetric]
        s3_def [symmetric] s4_def [symmetric])
  have "robot_pose s4 = Some (as_pose (mean_particle (particle_cloud s3)))"
    using c3(2) s3 by (simp add: s4_def)
  moreover have "current_odom_xy_theta s4 = Some new"
    by (simp add: s4_def s3_def s2_def s1_def)
  moreover have "length (particle_cloud s4) = 300"
      "\<forall>p \<in> set (particle_cloud s4). p_w p = default_w"
    using c4(2,3) by (simp_all add: s4_def)
  moreover have "published s4 = published s" "map_frame s4 = map_frame s"
    by (simp_all add: s4_def s3_def s2_def s1_def)
  ultimately show ?thesis
    using run c1(1) c2(1) c3(1) c4(1)
    unfolding s1_def [symmetric] s2_def [symmetric] s3_def [symmetric] s4_def [symmetric]
    by blast
qed

lemma new_particle_weight:
  "new_particle cloud cp d = Inr p \<Longrightarrow> p_w p = default_w"
  by (auto simp: new_particle_def Let_def Particle_def split: prod.splits if_splits)

lemma new_particles_weight:
  "new_particles cloud cp draw js = Inr ps \<Longrightarrow> \<forall>p \<in> set ps. p_w p = default_w"
proof (induction js arbitrary: ps)
  case Nil
  then show ?case by simp
next
  case (Cons j js)
  then show ?case
    by (auto split: sum.splits dest: new_particle_weight)
qed

lemma resample_particles_weight:
  assumes "resample_particles draw s = Inr s'"
  shows "\<forall>p \<in> set (particle_cloud s'). p_w p = default_w"
    and "published s' = published s" and "map_frame s' = map_frame s"
  using assms
  by (auto simp: resample_particles_def resample_cloud_def Let_def
      split: sum.splits dest: new_particles_weight)

lemma odom_frame:
  assumes "update_particles_with_odom draw s = Inr s'"
  shows "published s' = published s" and "map_frame s' = map_frame s"
  using assms
  by (auto simp: update_particles_with_odom_def Let_def split: option.splits prod.splits)

lemma laser_frame:
  assumes "update_particles_with_laser field r theta s = Inr s'"
  shows "published s' = published s" and "map_frame s' = map_frame s"
  using assms
  by (auto simp: update_particles_with_laser_def normalize_particles_def split: sum.splits)

lemma pose_frame:
  assumes "update_robot_pose s = Inr s'"
  shows "published s' = published s" and "map_frame s' = map_frame s"
  using assms
  by (auto simp: update_robot_pose_def normalize_particles_def Let_def
      split: sum.splits option.splits)

lemma tracking_update_result:
  assumes "tracking_update e r theta s = Inr s'"
  shows "\<forall>p \<in> set (particle_cloud s'). p_w p = default_w"
    and "published s' = published s" and "map_frame s' = map_frame s"
proof -
  obtain s1 s2 s3 where steps:
      "update_particles_with_odom (odom_draw e) s = Inr s1"
      "update_particles_with_laser (closest_obstacle_distance e) r theta s1 = Inr s2"
      "update_robot_pose s2 = Inr s3"
      "resample_particles (resample_draw e) s3 = Inr s'"
    using assms by (auto simp: tracking_update_def split: sum.splits)
  show "\<forall>p \<in> set (particle_cloud s'). p_w p = default_w"
    using steps(4) by (rule resample_particles_weight)
  show "published s' = published s"
    using steps by (simp add: odom_frame laser_frame pose_frame resample_particles_weight)
  show "map_frame s' = map_frame s"
    using steps by (simp add: odom_frame laser_frame pose_frame resample_particles_weight)
qed

lemma bsearch_left_all_below:
  "lo \<le> hi \<Longrightarrow> \<forall>i. lo \<le> i \<and> i < hi \<longrightarrow> a ! i < v \<Longrightarrow> bsearch_left a v lo hi = hi"
proof (induction a v lo hi rule: bsearch_left.induct)
  case (1 a v lo hi)
  show ?case
  proof (cases "lo < hi")
    case False
    then show ?thesis
      using "1.prems"(1) by (simp add: bsearch_left_stop)
  next
    case True
    define mid where "mid = lo + (hi - lo) div 2"
    have mid: "lo \<le> mid" "mid < hi"
      using True by (simp_all add: mid_def)
    have below: "a ! mid < v"
      using "1.prems"(2) mid by blast
    have step: "bsearch_left a v lo hi =
        (if a ! mid < v then bsearch_left a v (mid + 1) hi else bsearch_left a v lo mid)"
      unfolding mid_def by (rule bsearch_left_step [OF True])
    have "bsearch_left a v (mid + 1) hi = hi"
      using "1.IH"(1) [OF True mid_def below] mid "1.prems"(2) by simp
    moreover have "bsearch_left a v lo hi = bsearch_left a v (mid + 1) hi"
      by (simp only: step below if_True)
    ultimately show ?thesis by simp
  qed
qed

lemma searchsorted_none:
  assumes "\<forall>b \<in> set a. \<not> b"
  shows "searchsorted a True = length a"
proof -
  have "\<forall>i. 0 \<le> i \<and> i < length a \<longrightarrow> a ! i < True"
  proof (intro allI impI)
    fix i
    assume "0 \<le> i \<and> i < length a"
    then have "a ! i \<in> set a"
      by simp
    then have "\<not> a ! i"
      using assms by blast
    then show "a ! i < True"
      by simp
  qed
  then show ?thesis
    unfolding searchsorted_def by (intro bsearch_left_all_below) simp
qed

lemma new_particle_index_error:
  assumes "length cp = length cloud" and "\<forall>c \<in> set cp. c \<le> u"
  shows "new_particle cloud cp (u, zx, zy, zt) = Inl IndexError"
proof -
  have "\<forall>b \<in> set (map (\<lambda>c. c > u) cp). \<not> b"
    using assms(2) by (auto simp: not_less)
  then have "searchsorted (map (\<lambda>c. c > u) cp) True = length (map (\<lambda>c. c > u) cp)"
    by (rule searchsorted_none)
  then show ?thesis
    using assms(1) by (simp add: new_particle_def Let_def)
qed

lemma round_to_double_74th: "round_to_double (1 / 74) = 486875635391405 / 36028797018963968"
  using round_to_double_neg_binade [of 6 "1 / 74"]
  by (simp add: py_round_def)

lemma replicate_74:
  "replicate 74 v =
     [v, v, v, v, v, v, v, v, v, v,
      v, v, v, v, v, v, v, v, v, v,
      v, v, v, v, v, v, v, v, v, v,
      v, v, v, v, v, v, v, v, v, v,
      v, v, v, v, v, v, v, v, v, v,
      v, v, v, v, v, v, v, v, v, v,
      v, v, v, v, v, v, v, v, v, v,
      v, v, v, v]"
  by (simp add: numeral_eq_Suc)

text \<open>The running sums of 74 copies of the double nearest to \<open>1/74\<close>.\<close>

lemma cumsum_equal_74:
  "cumsum (replicate 74 (486875635391405 / 36028797018963968)) =
     [486875635391405 / 36028797018963968,
      486875635391405 / 18014398509481984,
      1460626906174215 / 36028797018963968,
      486875635391405 / 9007199254740992,
      2434378176957025 / 36028797018963968,
      1460626906174215 / 18014398509481984,
      3408129447739835 / 36028797018963968,
      486875635391405 / 4503599627370496,
      4381880718522645 / 36028797018963968,
      2434378176957025 / 18014398509481984,
      5355631989305455 / 36028797018963968,
      1460626906174215 / 9007199254740992,
      6329383260088265 / 36028797018963968,
      3408129447739835 / 18014398509481984,
      7303134530871075 / 36028797018963968,
      486875635391405 / 2251799813685248,
      8276885801653885 / 36028797018963968,
      4381880718522645 / 18014398509481984,
      1156329634054587 / 4503599627370496,
      2434378176957025 / 9007199254740992,
      639024271451219 / 2251799813685248,
      2677815994652727 / 9007199254740992,
      1399767451750289 / 4503599627370496,
      2921253812348429 / 9007199254740992,
      380371590149535 / 1125899906842624,
      3164691630044131 / 9007199254740992,
      1643205269445991 / 4503599627370496,
      3408129447739833 / 9007199254740992,
      882462089146921 / 2251799813685248,
      3651567265435535 / 9007199254740992,
      1886643087141693 / 4503599627370496,
      3895005083131237 / 9007199254740992,
      251045249498693 / 562949953421312,
      4138442900826939 / 9007199254740992,
      2130080904837395 / 4503599627370496,
      4381880718522641 / 9007199254740992,
      1125899906842623 / 2251799813685248,
      4625318536218343 / 9007199254740992,
      2373518722533097 / 4503599627370496,
      4868756353914045 / 9007199254740992,
      623809407845237 / 1125899906842624,
      5112194171609747 / 9007199254740992,
      2616956540228799 / 4503599627370496,
      5355631989305449 / 9007199254740992,
      1369337724538325 / 2251799813685248,
      5599069807001151 / 9007199254740992,
      2860394357924501 / 4503599627370496,
      5842507624696853 / 9007199254740992,
      23297759896659 / 35184372088832,
      6085945442392555 / 9007199254740992,
      3103832175620203 / 4503599627370496,
      6329383260088257 / 9007199254740992,
      1612775542234027 / 2251799813685248,
      6572821077783959 / 9007199254740992,
      3347269993315905 / 4503599627370496,
      6816258895479661 / 9007199254740992,
      867247225540939 / 1125899906842624,
      7059696713175363 / 9007199254740992,
      3590707811011607 / 4503599627370496,
      7303134530871065 / 9007199254740992,
      1856213359929729 / 2251799813685248,
      7546572348566767 / 9007199254740992,
      3834145628707309 / 4503599627370496,
      7790010166262469 / 9007199254740992,
      494483067194395 / 562949953421312,
      8033447983958171 / 9007199254740992,
      4077583446403011 / 4503599627370496,
      8276885801653873 / 9007199254740992,
      2099651177625431 / 2251799813685248,
      8520323619349575 / 9007199254740992,
      4321021264098713 / 4503599627370496,
      8763761437045277 / 9007199254740992,
      1110685043236641 / 1125899906842624,
      9007199254740979 / 9007199254740992]"
proof -
  have r1: "round_to_double (0 + 486875635391405 / 36028797018963968) = 486875635391405 / 36028797018963968"
    using round_to_double_neg_binade [of 6 "0 + 486875635391405 / 36028797018963968"]
    by (simp add: py_round_def)
  have r2: "round_to_double (486875635391405 / 36028797018963968 + 486875635391405 / 36028797018963968) = 486875635391405 / 18014398509481984"
    using round_to_double_neg_binade [of 5 "486875635391405 / 36028797018963968 + 486875635391405 / 36028797018963968"]
    by (simp add: py_round_def)
  have r3: "round_to_double (486875635391405 / 18014398509481984 + 486875635391405 / 36028797018963968) = 1460626906174215 / 36028797018963968"
    using round_to_double_neg_binade [of 4 "486875635391405 / 18014398509481984 + 486875635391405 / 36028797018963968"]
    by (simp add: py_round_def)
  have r4: "round_to_double (1460626906174215 / 36028797018963968 + 486875635391405 / 36028797018963968) = 486875635391405 / 9007199254740992"
    using round_to_double_neg_binade [of 4 "1460626906174215 / 36028797018963968 + 486875635391405 / 36028797018963968"]
    by (simp add: py_round_def)
  have r5: "round_to_double (486875635391405 / 9007199254740992 + 486875635391405 / 36028797018963968) = 2434378176957025 / 36028797018963968"
    using round_to_double_neg_binade [of 3 "486875635391405 / 9007199254740992 + 486875635391405 / 36028797018963968"]
    by (simp add: py_round_def)
  have r6: "round_to_double (2434378176957025 / 36028797018963968 + 486875635391405 / 36028797018963968) = 1460626906174215 / 18014398509481984"
    using round_to_double_neg_binade [of 3 "2434378176957025 / 36028797018963968 + 486875635391405 / 36028797018963968"]
    by (simp add: py_round_def)
  have r7: "round_to_double (1460626906174215 / 18014398509481984 + 486875635391405 / 36028797018963968) = 3408129447739835 / 36028797018963968"
    using round_to_double_neg_binade [of 3 "1460626906174215 / 18014398509481984 + 486875635391405 / 36028797018963968"]
    by (simp add: py_round_def)
  have r8: "round_to_double (3408129447739835 / 36028797018963968 + 486875635391405 / 36028797018963968) = 486875635391405 / 4503599627370496"
    using round_to_double_neg_binade [of 3 "3408129447739835 / 36028797018963968 + 486875635391405 / 36028797018963968"]
    by (simp add: py_round_def)
  have r9: "round_to_double (486875635391405 / 4503599627370496 + 486875635391405 / 36028797018963968) = 4381880718522645 / 36028797018963968"
    using round_to_double_neg_binade [of 3 "486875635391405 / 4503599627370496 + 486875635391405 / 36028797018963968"]
    by (simp add: py_round_def)
  have r10: "round_to_double (4381880718522645 / 36028797018963968 + 486875635391405 / 36028797018963968) = 2434378176957025 / 18014398509481984"
    using round_to_double_neg_binade [of 2 "4381880718522645 / 36028797018963968 + 486875635391405 / 36028797018963968"]
    by (simp add: py_round_def)
  have r11: "round_to_double (2434378176957025 / 18014398509481984 + 486875635391405 / 36028797018963968) = 5355631989305455 / 36028797018963968"
    using round_to_double_neg_binade [of 2 "2434378176957025 / 18014398509481984 + 486875635391405 / 36028797018963968"]
    by (simp add: py_round_def)
  have r12: "round_to_double (5355631989305455 / 36028797018963968 + 486875635391405 / 36028797018963968) = 1460626906174215 / 9007199254740992"
    using round_to_double_neg_binade [of 2 "5355631989305455 / 36028797018963968 + 486875635391405 / 36028797018963968"]
    by (simp add: py_round_def)
  have r13: "round_to_double (1460626906174215 / 9007199254740992 + 486875635391405 / 36028797018963968) = 6329383260088265 / 36028797018963968"
    using round_to_double_neg_binade [of 2 "1460626906174215 / 9007199254740992 + 486875635391405 / 36028797018963968"]
    by (simp add: py_round_def)
  have r14: "round_to_double (6329383260088265 / 36028797018963968 + 486875635391405 / 36028797018963968) = 3408129447739835 / 18014398509481984"
    using round_to_double_neg_binade [of 2 "6329383260088265 / 36028797018963968 + 486875635391405 / 36028797018963968"]
    by (simp add: py_round_def)
  have r15: "round_to_double (3408129447739835 / 18014398509481984 + 486875635391405 / 36028797018963968) = 7303134530871075 / 36028797018963968"
    using round_to_double_neg_binade [of 2 "3408129447739835 / 18014398509481984 + 486875635391405 / 36028797018963968"]
    by (simp add: py_round_def)
  have r16: "round_to_double (7303134530871075 / 36028797018963968 + 486875635391405 / 36028797018963968) = 486875635391405 / 2251799813685248"
    using round_to_double_neg_binade [of 2 "7303134530871075 / 36028797018963968 + 486875635391405 / 36028797018963968"]
    by (simp add: py_round_def)
  have r17: "round_to_double (486875635391405 / 2251799813685248 + 486875635391405 / 36028797018963968) = 8276885801653885 / 36028797018963968"
    using round_to_double_neg_binade [of 2 "486875635391405 / 2251799813685248 + 486875635391405 / 36028797018963968"]
    by (simp add: py_round_def)
  have r18: "round_to_double (8276885801653885 / 36028797018963968 + 486875635391405 / 36028797018963968) = 4381880718522645 / 18014398509481984"
    using round_to_double_neg_binade [of 2 "8276885801653885 / 36028797018963968 + 486875635391405 / 36028797018963968"]
    by (simp add: py_round_def)
  have r19: "round_to_double (4381880718522645 / 18014398509481984 + 486875635391405 / 36028797018963968) = 1156329634054587 / 4503599627370496"
    using round_to_double_neg_binade [of 1 "4381880718522645 / 18014398509481984 + 486875635391405 / 36028797018963968"]
    by (simp add: py_round_def)
  have r20: "round_to_double (1156329634054587 / 4503599627370496 + 486875635391405 / 36028797018963968) = 2434378176957025 / 9007199254740992"
    using round_to_double_neg_binade [of 1 "1156329634054587 / 4503599627370496 + 486875635391405 / 36028797018963968"]
    by (simp add: py_round_def)
  have r21: "round_to_double (2434378176957025 / 9007199254740992 + 486875635391405 / 36028797018963968) = 639024271451219 / 2251799813685248"
    using round_to_double_neg_binade [of 1 "2434378176957025 / 9007199254740992 + 486875635391405 / 36028797018963968"]
    by (simp add: py_round_def)
  have r22: "round_to_double (639024271451219 / 2251799813685248 + 486875635391405 / 36028797018963968) = 2677815994652727 / 9007199254740992"
    using round_to_double_neg_binade [of 1 "639024271451219 / 2251799813685248 + 486875635391405 / 36028797018963968"]
    by (simp add: py_round_def)
  have r23: "round_to_double (2677815994652727 / 9007199254740992 + 486875635391405 / 36028797018963968) = 1399767451750289 / 4503599627370496"
    using round_to_double_neg_binade [of 1 "2677815994652727 / 9007199254740992 + 486875635391405 / 36028797018963968"]
    by (simp add: py_round_def)
  have r24: "round_to_double (1399767451750289 / 4503599627370496 + 486875635391405 / 36028797018963968) = 2921253812348429 / 9007199254740992"
    using round_to_double_neg_binade [of 1 "1399767451750289 / 4503599627370496 + 486875635391405 / 36028797018963968"]
    by (simp add: py_round_def)
  have r25: "round_to_double (2921253812348429 / 9007199254740992 + 486875635391405 / 36028797018963968) = 380371590149535 / 1125899906842624"
    using round_to_double_neg_binade [of 1 "2921253812348429 / 9007199254740992 + 486875635391405 / 36028797018963968"]
    by (simp add: py_round_def)
  have r26: "round_to_double (380371590149535 / 1125899906842624 + 486875635391405 / 36028797018963968) = 3164691630044131 / 9007199254740992"
    using round_to_double_neg_binade [of 1 "380371590149535 / 1125899906842624 + 486875635391405 / 36028797018963968"]
    by (simp add: py_round_def)
  have r27: "round_to_double (3164691630044131 / 9007199254740992 + 486875635391405 / 36028797018963968) = 1643205269445991 / 4503599627370496"
    using round_to_double_neg_binade [of 1 "3164691630044131 / 9007199254740992 + 486875635391405 / 36028797018963968"]
    by (simp add: py_round_def)
  have r28: "round_to_double (1643205269445991 / 4503599627370496 + 486875635391405 / 36028797018963968) = 3408129447739833 / 9007199254740992"
    using round_to_double_neg_binade [of 1 "1643205269445991 / 4503599627370496 + 486875635391405 / 36028797018963968"]
    by (simp add: py_round_def)
  have r29: "round_to_double (3408129447739833 / 9007199254740992 + 486875635391405 / 36028797018963968) = 882462089146921 / 2251799813685248"
    using round_to_double_neg_binade [of 1 "3408129447739833 / 9007199254740992 + 486875635391405 / 36028797018963968"]
    by (simp add: py_round_def)
  have r30: "round_to_double (882462089146921 / 2251799813685248 + 486875635391405 / 36028797018963968) = 3651567265435535 / 9007199254740992"
    using round_to_double_neg_binade [of 1 "882462089146921 / 2251799813685248 + 486875635391405 / 36028797018963968"]
    by (simp add: py_round_def)
  have r31: "round_to_double (3651567265435535 / 9007199254740992 + 486875635391405 / 36028797018963968) = 1886643087141693 / 4503599627370496"
    using round_to_double_neg_binade [of 1 "3651567265435535 / 9007199254740992 + 486875635391405 / 36028797018963968"]
    by (simp add: py_round_def)
  have r32: "round_to_double (1886643087141693 / 4503599627370496 + 486875635391405 / 36028797018963968) = 3895005083131237 / 9007199254740992"
    using round_to_double_neg_binade [of 1 "1886643087141693 / 4503599627370496 + 486875635391405 / 36028797018963968"]
    by (simp add: py_round_def)
  have r33: "round_to_double (3895005083131237 / 9007199254740992 + 486875635391405 / 36028797018963968) = 251045249498693 / 562949953421312"
    using round_to_double_neg_binade [of 1 "3895005083131237 / 9007199254740992 + 486875635391405 / 36028797018963968"]
    by (simp add: py_round_def)
  have r34: "round_to_double (251045249498693 / 562949953421312 + 486875635391405 / 36028797018963968) = 4138442900826939 / 9007199254740992"
    using round_to_double_neg_binade [of 1 "251045249498693 / 562949953421312 + 486875635391405 / 36028797018963968"]
    by (simp add: py_round_def)
  have r35: "round_to_double (4138442900826939 / 9007199254740992 + 486875635391405 / 36028797018963968) = 2130080904837395 / 4503599627370496"
    using round_to_double_neg_binade [of 1 "4138442900826939 / 9007199254740992 + 486875635391405 / 36028797018963968"]
    by (simp add: py_round_def)
  have r36: "round_to_double (2130080904837395 / 4503599627370496 + 486875635391405 / 36028797018963968) = 4381880718522641 / 9007199254740992"
    using round_to_double_neg_binade [of 1 "2130080904837395 / 4503599627370496 + 486875635391405 / 36028797018963968"]
    by (simp add: py_round_def)
  have r37: "round_to_double (4381880718522641 / 9007199254740992 + 486875635391405 / 36028797018963968) = 1125899906842623 / 2251799813685248"
    using round_to_double_neg_binade [of 1 "4381880718522641 / 9007199254740992 + 486875635391405 / 36028797018963968"]
    by (simp add: py_round_def)
  have r38: "round_to_double (1125899906842623 / 2251799813685248 + 486875635391405 / 36028797018963968) = 4625318536218343 / 9007199254740992"
    using round_to_double_neg_binade [of 0 "1125899906842623 / 2251799813685248 + 486875635391405 / 36028797018963968"]
    by (simp add: py_round_def)
  have r39: "round_to_double (4625318536218343 / 9007199254740992 + 486875635391405 / 36028797018963968) = 2373518722533097 / 4503599627370496"
    using round_to_double_neg_binade [of 0 "4625318536218343 / 9007199254740992 + 486875635391405 / 36028797018963968"]
    by (simp add: py_round_def)
  have r40: "round_to_double (2373518722533097 / 4503599627370496 + 486875635391405 / 36028797018963968) = 4868756353914045 / 9007199254740992"
    using round_to_double_neg_binade [of 0 "2373518722533097 / 4503599627370496 + 486875635391405 / 36028797018963968"]
    by (simp add: py_round_def)
  have r41: "round_to_double (4868756353914045 / 9007199254740992 + 486875635391405 / 36028797018963968) = 623809407845237 / 1125899906842624"
    using round_to_double_neg_binade [of 0 "4868756353914045 / 9007199254740992 + 486875635391405 / 36028797018963968"]
    by (simp add: py_round_def)
  have r42: "round_to_double (623809407845237 / 1125899906842624 + 486875635391405 / 36028797018963968) = 5112194171609747 / 9007199254740992"
    using round_to_double_neg_binade [of 0 "623809407845237 / 1125899906842624 + 486875635391405 / 36028797018963968"]
    by (simp add: py_round_def)
  have r43: "round_to_double (5112194171609747 / 9007199254740992 + 486875635391405 / 36028797018963968) = 2616956540228799 / 4503599627370496"
    using round_to_double_neg_binade [of 0 "5112194171609747 / 9007199254740992 + 486875635391405 / 36028797018963968"]
    by (simp add: py_round_def)
  have r44: "round_to_double (2616956540228799 / 4503599627370496 + 486875635391405 / 36028797018963968) = 5355631989305449 / 9007199254740992"
    using round_to_double_neg_binade [of 0 "2616956540228799 / 4503599627370496 + 486875635391405 / 36028797018963968"]
    by (simp add: py_round_def)
  have r45: "round_to_double (5355631989305449 / 9007199254740992 + 486875635391405 / 36028797018963968) = 1369337724538325 / 2251799813685248"
    using round_to_double_neg_binade [of 0 "5355631989305449 / 9007199254740992 + 486875635391405 / 36028797018963968"]
    by (simp add: py_round_def)
  have r46: "round_to_double (1369337724538325 / 2251799813685248 + 486875635391405 / 36028797018963968) = 5599069807001151 / 9007199254740992"
    using round_to_double_neg_binade [of 0 "1369337724538325 / 2251799813685248 + 486875635391405 / 36028797018963968"]
    by (simp add: py_round_def)
  have r47: "round_to_double (5599069807001151 / 9007199254740992 + 486875635391405 / 36028797018963968) = 2860394357924501 / 4503599627370496"
    using round_to_double_neg_binade [of 0 "5599069807001151 / 9007199254740992 + 486875635391405 / 36028797018963968"]
    by (simp add: py_round_def)
  have r48: "round_to_double (2860394357924501 / 4503599627370496 + 486875635391405 / 36028797018963968) = 5842507624696853 / 9007199254740992"
    using round_to_double_neg_binade [of 0 "2860394357924501 / 4503599627370496 + 486875635391405 / 36028797018963968"]
    by (simp add: py_round_def)
  have r49: "round_to_double (5842507624696853 / 9007199254740992 + 486875635391405 / 36028797018963968) = 23297759896659 / 35184372088832"
    using round_to_double_neg_binade [of 0 "5842507624696853 / 9007199254740992 + 486875635391405 / 36028797018963968"]
    by (simp add: py_round_def)
  have r50: "round_to_double (23297759896659 / 35184372088832 + 486875635391405 / 36028797018963968) = 6085945442392555 / 9007199254740992"
    using round_to_double_neg_binade [of 0 "23297759896659 / 35184372088832 + 486875635391405 / 36028797018963968"]
    by (simp add: py_round_def)
  have r51: "round_to_double (6085945442392555 / 9007199254740992 + 486875635391405 / 36028797018963968) = 3103832175620203 / 4503599627370496"
    using round_to_double_neg_binade [of 0 "6085945442392555 / 9007199254740992 + 486875635391405 / 36028797018963968"]
    by (simp add: py_round_def)
  have r52: "round_to_double (3103832175620203 / 4503599627370496 + 486875635391405 / 36028797018963968) = 6329383260088257 / 9007199254740992"
    using round_to_double_neg_binade [of 0 "3103832175620203 / 4503599627370496 + 486875635391405 / 36028797018963968"]
    by (simp add: py_round_def)
  have r53: "round_to_double (6329383260088257 / 9007199254740992 + 486875635391405 / 36028797018963968) = 1612775542234027 / 2251799813685248"
    using round_to_double_neg_binade [of 0 "6329383260088257 / 9007199254740992 + 486875635391405 / 36028797018963968"]
    by (simp add: py_round_def)
  have r54: "round_to_double (1612775542234027 / 2251799813685248 + 486875635391405 / 36028797018963968) = 6572821077783959 / 9007199254740992"
    using round_to_double_neg_binade [of 0 "1612775542234027 / 2251799813685248 + 486875635391405 / 36028797018963968"]
    by (simp add: py_round_def)
  have r55: "round_to_double (6572821077783959 / 9007199254740992 + 486875635391405 / 36028797018963968) = 3347269993315905 / 4503599627370496"
    using round_to_double_neg_binade [of 0 "6572821077783959 / 9007199254740992 + 486875635391405 / 36028797018963968"]
    by (simp add: py_round_def)
  have r56: "round_to_double (3347269993315905 / 4503599627370496 + 486875635391405 / 36028797018963968) = 6816258895479661 / 9007199254740992"
    using round_to_double_neg_binade [of 0 "3347269993315905 / 4503599627370496 + 486875635391405 / 36028797018963968"]
    by (simp add: py_round_def)
  have r57: "round_to_double (6816258895479661 / 9007199254740992 + 486875635391405 / 36028797018963968) = 867247225540939 / 1125899906842624"
    using round_to_double_neg_binade [of 0 "6816258895479661 / 9007199254740992 + 486875635391405 / 36028797018963968"]
    by (simp add: py_round_def)
  have r58: "round_to_double (867247225540939 / 1125899906842624 + 486875635391405 / 36028797018963968) = 7059696713175363 / 9007199254740992"
    using round_to_double_neg_binade [of 0 "867247225540939 / 1125899906842624 + 486875635391405 / 36028797018963968"]
    by (simp add: py_round_def)
  have r59: "round_to_double (7059696713175363 / 9007199254740992 + 486875635391405 / 36028797018963968) = 3590707811011607 / 4503599627370496"
    using round_to_double_neg_binade [of 0 "7059696713175363 / 9007199254740992 + 486875635391405 / 36028797018963968"]
    by (simp add: py_round_def)
  have r60: "round_to_double (3590707811011607 / 4503599627370496 + 486875635391405 / 36028797018963968) = 7303134530871065 / 9007199254740992"
    using round_to_double_neg_binade [of 0 "3590707811011607 / 4503599627370496 + 486875635391405 / 36028797018963968"]
    by (simp add: py_round_def)
  have r61: "round_to_double (7303134530871065 / 9007199254740992 + 486875635391405 / 36028797018963968) = 1856213359929729 / 2251799813685248"
    using round_to_double_neg_binade [of 0 "7303134530871065 / 9007199254740992 + 486875635391405 / 36028797018963968"]
    by (simp add: py_round_def)
  have r62: "round_to_double (1856213359929729 / 2251799813685248 + 486875635391405 / 36028797018963968) = 7546572348566767 / 9007199254740992"
    using round_to_double_neg_binade [of 0 "1856213359929729 / 2251799813685248 + 486875635391405 / 36028797018963968"]
    by (simp add: py_round_def)
  have r63: "round_to_double (7546572348566767 / 9007199254740992 + 486875635391405 / 36028797018963968) = 3834145628707309 / 4503599627370496"
    using round_to_double_neg_binade [of 0 "7546572348566767 / 9007199254740992 + 486875635391405 / 36028797018963968"]
    by (simp add: py_round_def)
  have r64: "round_to_double (3834145628707309 / 4503599627370496 + 486875635391405 / 36028797018963968) = 7790010166262469 / 9007199254740992"
    using round_to_double_neg_binade [of 0 "3834145628707309 / 4503599627370496 + 486875635391405 / 36028797018963968"]
    by (simp add: py_round_def)
  have r65: "round_to_double (7790010166262469 / 9007199254740992 + 486875635391405 / 36028797018963968) = 494483067194395 / 562949953421312"
    using round_to_double_neg_binade [of 0 "7790010166262469 / 9007199254740992 + 486875635391405 / 36028797018963968"]
    by (simp add: py_round_def)
  have r66: "round_to_double (494483067194395 / 562949953421312 + 486875635391405 / 36028797018963968) = 8033447983958171 / 9007199254740992"
    using round_to_double_neg_binade [of 0 "494483067194395 / 562949953421312 + 486875635391405 / 36028797018963968"]
    by (simp add: py_round_def)
  have r67: "round_to_double (8033447983958171 / 9007199254740992 + 486875635391405 / 36028797018963968) = 4077583446403011 / 4503599627370496"
    using round_to_double_neg_binade [of 0 "8033447983958171 / 9007199254740992 + 486875635391405 / 36028797018963968"]
    by (simp add: py_round_def)
  have r68: "round_to_double (4077583446403011 / 4503599627370496 + 486875635391405 / 36028797018963968) = 8276885801653873 / 9007199254740992"
    using round_to_double_neg_binade [of 0 "4077583446403011 / 4503599627370496 + 486875635391405 / 36028797018963968"]
    by (simp add: py_round_def)
  have r69: "round_to_double (8276885801653873 / 9007199254740992 + 486875635391405 / 36028797018963968) = 2099651177625431 / 2251799813685248"
    using round_to_double_neg_binade [of 0 "8276885801653873 / 9007199254740992 + 486875635391405 / 36028797018963968"]
    by (simp add: py_round_def)
  have r70: "round_to_double (2099651177625431 / 2251799813685248 + 486875635391405 / 36028797018963968) = 8520323619349575 / 9007199254740992"
    using round_to_double_neg_binade [of 0 "2099651177625431 / 2251799813685248 + 486875635391405 / 36028797018963968"]
    by (simp add: py_round_def)
  have r71: "round_to_double (8520323619349575 / 9007199254740992 + 486875635391405 / 36028797018963968) = 4321021264098713 / 4503599627370496"
    using round_to_double_neg_binade [of 0 "8520323619349575 / 9007199254740992 + 486875635391405 / 36028797018963968"]
    by (simp add: py_round_def)
  have r72: "round_to_double (4321021264098713 / 4503599627370496 + 486875635391405 / 36028797018963968) = 8763761437045277 / 9007199254740992"
    using round_to_double_neg_binade [of 0 "4321021264098713 / 4503599627370496 + 486875635391405 / 36028797018963968"]
    by (simp add: py_round_def)
  have r73: "round_to_double (8763761437045277 / 9007199254740992 + 486875635391405 / 36028797018963968) = 1110685043236641 / 1125899906842624"
    using round_to_double_neg_binade [of 0 "8763761437045277 / 9007199254740992 + 486875635391405 / 36028797018963968"]
    by (simp add: py_round_def)
  have r74: "round_to_double (1110685043236641 / 1125899906842624 + 486875635391405 / 36028797018963968) = 9007199254740979 / 9007199254740992"
    using round_to_double_neg_binade [of 0 "1110685043236641 / 1125899906842624 + 486875635391405 / 36028797018963968"]
    by (simp add: py_round_def)
  show ?thesis
    unfolding cumsum_def replicate_74
    by (simp only: cumsum_from.simps r1 r2 r3 r4 r5 r6 r7 r8 r9 r10 r11 r12 r13 r14 r15 r16 r17 r18 r19 r20 r21 r22 r23 r24 r25 r26 r27 r28 r29 r30 r31 r32 r33 r34 r35 r36 r37 r38 r39 r40 r41 r42 r43 r44 r45 r46 r47 r48 r49 r50 r51 r52 r53 r54 r55 r56 r57 r58 r59 r60 r61 r62 r63 r64 r65 r66 r67 r68 r69 r70 r71 r72 r73 r74)
qed

lemma resample_cloud_top_draw_300:
  assumes "0 < p_w p"
  shows "resample_cloud 300 top_draw (replicate 300 p) = Inl IndexError"
proof -
  define q where "q = p\<lparr>p_norm_w := p_w p / (real 74 * p_w p)\<rparr>"
  define cp where "cp = cumsum (map (\<lambda>p. round_to_double (p_norm_w p)) (replicate 74 q))"
  have norm: "normalize_cloud (best_particles 300 (replicate 300 p)) = Inr (replicate 74 q)"
    unfolding best_particles_replicate_300 q_def using assms
    by (intro normalize_cloud_replicate) simp_all
  have nq: "p_norm_w q = 1 / 74"
    using assms by (simp add: q_def)
  have "map (\<lambda>p. round_to_double (p_norm_w p)) (replicate 74 q) =
      replicate 74 (486875635391405 / 36028797018963968)"
    by (simp only: map_replicate nq round_to_double_74th)
  then have cp: "cp =
     [486875635391405 / 36028797018963968,
      486875635391405 / 18014398509481984,
      1460626906174215 / 36028797018963968,
      486875635391405 / 9007199254740992,
      2434378176957025 / 36028797018963968,
      1460626906174215 / 18014398509481984,
      3408129447739835 / 36028797018963968,
      486875635391405 / 4503599627370496,
      4381880718522645 / 36028797018963968,
      2434378176957025 / 18014398509481984,
      5355631989305455 / 36028797018963968,
      1460626906174215 / 9007199254740992,
      6329383260088265 / 36028797018963968,
      3408129447739835 / 18014398509481984,
      7303134530871075 / 36028797018963968,
      486875635391405 / 2251799813685248,
      8276885801653885 / 36028797018963968,
      4381880718522645 / 18014398509481984,
      1156329634054587 / 4503599627370496,
      2434378176957025 / 9007199254740992,
      639024271451219 / 2251799813685248,
      2677815994652727 / 9007199254740992,
      1399767451750289 / 4503599627370496,
      2921253812348429 / 9007199254740992,
      380371590149535 / 1125899906842624,
      3164691630044131 / 9007199254740992,
      1643205269445991 / 4503599627370496,
      3408129447739833 / 9007199254740992,
      882462089146921 / 2251799813685248,
      3651567265435535 / 9007199254740992,
      1886643087141693 / 4503599627370496,
      3895005083131237 / 9007199254740992,
      251045249498693 / 562949953421312,
      4138442900826939 / 9007199254740992,
      2130080904837395 / 4503599627370496,
      4381880718522641 / 9007199254740992,
      1125899906842623 / 2251799813685248,
      4625318536218343 / 9007199254740992,
      2373518722533097 / 4503599627370496,
      4868756353914045 / 9007199254740992,
      623809407845237 / 1125899906842624,
      5112194171609747 / 9007199254740992,
      2616956540228799 / 4503599627370496,
      5355631989305449 / 9007199254740992,
      1369337724538325 / 2251799813685248,
      5599069807001151 / 9007199254740992,
      2860394357924501 / 4503599627370496,
      5842507624696853 / 9007199254740992,
      23297759896659 / 35184372088832,
      6085945442392555 / 9007199254740992,
      3103832175620203 / 4503599627370496,
      6329383260088257 / 9007199254740992,
      1612775542234027 / 2251799813685248,
      6572821077783959 / 9007199254740992,
      3347269993315905 / 4503599627370496,
      6816258895479661 / 9007199254740992,
      867247225540939 / 1125899906842624,
      7059696713175363 / 9007199254740992,
      3590707811011607 / 4503599627370496,
      7303134530871065 / 9007199254740992,
      1856213359929729 / 2251799813685248,
      7546572348566767 / 9007199254740992,
      3834145628707309 / 4503599627370496,
      7790010166262469 / 9007199254740992,
      494483067194395 / 562949953421312,
      8033447983958171 / 9007199254740992,
      4077583446403011 / 4503599627370496,
      8276885801653873 / 9007199254740992,
      2099651177625431 / 2251799813685248,
      8520323619349575 / 9007199254740992,
      4321021264098713 / 4503599627370496,
      8763761437045277 / 9007199254740992,
      1110685043236641 / 1125899906842624,
      9007199254740979 / 9007199254740992]"
    unfolding cp_def by (simp only: cumsum_equal_74)
  have len: "length cp = length (replicate 74 q)"
    by (simp add: cp_def length_cumsum)
  have "\<forall>c \<in> set cp. c \<le> 1 - 1 / 2 ^ 53"
    unfolding cp by simp
  then have "new_particle (replicate 74 q) cp (1 - 1 / 2 ^ 53, 0, 0, 0) = Inl IndexError"
    using len by (intro new_particle_index_error)
  then have one: "new_particle (replicate 74 q) cp (top_draw 0) = Inl IndexError"
    by (simp add: top_draw_def)
  have "[0..<nat 300] = 0 # [1..<300]"
    by (simp add: upt_conv_Cons del: upt_rec_numeral)
  then have "new_particles (replicate 74 q) cp top_draw [0..<nat 300] = Inl IndexError"
    using one by (simp del: upt_rec_numeral)
  then show ?thesis
    unfolding resample_cloud_def norm cp_def by (simp add: Let_def del: upt_rec_numeral)
qed

lemma normalize_cloud_weights:
  assumes "\<forall>p \<in> set cloud. 1 \<le> p_w p"
  shows "\<exists>c. normalize_cloud cloud = Inr c \<and> map p_w c = map p_w cloud"
proof (cases "cloud = []")
  case True
  then show ?thesis
    by (simp add: normalize_cloud_def)
next
  case False
  have "\<forall>p \<in> set cloud. 0 < p_w p"
    using assms by force
  then have "0 < sum_list (map p_w cloud)"
    using False by (intro sum_list_pos_weights)
  then have "normalize_cloud cloud =
      Inr (map (\<lambda>p. p\<lparr>p_norm_w := p_w p / sum_list (map p_w cloud)\<rparr>) cloud)"
    using False by (intro normalize_cloud_ok) simp_all
  then show ?thesis
    by (simp add: comp_def)
qed

lemma weights_of_map:
  assumes "map p_w c = map p_w cloud" and "\<forall>p \<in> set cloud. 1 \<le> p_w p"
  shows "\<forall>p \<in> set c. 1 \<le> p_w p"
proof
  fix p
  assume "p \<in> set c"
  then have "p_w p \<in> set (map p_w c)"
    by simp
  then have "p_w p \<in> set (map p_w cloud)"
    using assms(1) by simp
  then show "1 \<le> p_w p"
    using assms(2) by auto
qed

lemma normalize_particles_weights:
  assumes "\<forall>p \<in> set (particle_cloud s). 1 \<le> p_w p"
  shows "\<exists>c. normalize_particles s = Inr (s\<lparr>particle_cloud := c\<rparr>)
           \<and> (\<forall>p \<in> set c. 1 \<le> p_w p)"
proof -
  obtain c where c: "normalize_cloud (particle_cloud s) = Inr c"
      "map p_w c = map p_w (particle_cloud s)"
    using normalize_cloud_weights [OF assms] by blast
  have "\<forall>p \<in> set c. 1 \<le> p_w p"
    using c(2) assms by (rule weights_of_map)
  moreover have "normalize_particles s = Inr (s\<lparr>particle_cloud := c\<rparr>)"
    using c(1) by (simp add: normalize_particles_def)
  ultimately show ?thesis
    by blast
qed

lemma odom_keeps_weights:
  assumes "\<forall>p \<in> set (particle_cloud s). 1 \<le> p_w p"
  shows "update_particles_with_odom draw s \<noteq> Inl ZeroDivisionError"
    and "update_particles_with_odom draw s = Inr s' \<Longrightarrow> \<forall>p \<in> set (particle_cloud s'). 1 \<le> p_w p"
  using assms
  by (auto simp: update_particles_with_odom_def Let_def p_w_move_particle in_set_enumerate_eq
      split: option.splits prod.splits)

lemma laser_keeps_weights:
  assumes "\<forall>p \<in> set (particle_cloud s). 1 \<le> p_w p"
  shows "\<exists>c. update_particles_with_laser field r theta s = Inr (s\<lparr>particle_cloud := c\<rparr>)
           \<and> (\<forall>p \<in> set c. 1 \<le> p_w p)"
proof -
  define scored where
    "scored = map (\<lambda>p. foldl (score_beam field) p (zip r theta)) (particle_cloud s)"
  have "\<forall>p \<in> set scored. 1 \<le> p_w p"
  proof
    fix p
    assume "p \<in> set scored"
    then obtain q where q: "q \<in> set (particle_cloud s)"
        "p = foldl (score_beam field) q (zip r theta)"
      by (auto simp: scored_def)
    have "1 \<le> p_w q"
      using assms q(1) by blast
    also have "p_w q \<le> p_w p"
      unfolding q(2) by (rule p_w_scan)
    finally show "1 \<le> p_w p" .
  qed
  then have "\<forall>p \<in> set (particle_cloud (s\<lparr>particle_cloud := scored\<rparr>)). 1 \<le> p_w p"
    by simp
  then obtain c where c: "normalize_particles (s\<lparr>particle_cloud := scored\<rparr>) =
      Inr (s\<lparr>particle_cloud := scored\<rparr>\<lparr>particle_cloud := c\<rparr>)" "\<forall>p \<in> set c. 1 \<le> p_w p"
    using normalize_particles_weights by blast
  have "update_particles_with_laser field r theta s = Inr (s\<lparr>particle_cloud := c\<rparr>)"
    using c(1) by (simp add: update_particles_with_laser_def scored_def)
  then show ?thesis
    using c(2) by blast
qed

lemma pose_keeps_weights:
  assumes "\<forall>p \<in> set (particle_cloud s). 1 \<le> p_w p"
  shows "\<exists>s'. update_robot_pose s = Inr s' \<and> (\<forall>p \<in> set (particle_cloud s'). 1 \<le> p_w p)"
proof -
  obtain c where c: "normalize_particles s = Inr (s\<lparr>particle_cloud := c\<rparr>)"
      "\<forall>p \<in> set c. 1 \<le> p_w p"
    using normalize_particles_weights [OF assms] by blast
  then show ?thesis
    by (cases "odom_pose s") (simp_all add: update_robot_pose_def Let_def)
qed

lemma new_particle_error: "new_particle cloud cp d = Inl err \<Longrightarrow> err = IndexError"
  by (auto simp: new_particle_def Let_def split: prod.splits if_splits)

lemma new_particles_error:
  "new_particles cloud cp draw js = Inl err \<Longrightarrow> err = IndexError"
proof (induction js)
  case Nil
  then show ?case by simp
next
  case (Cons j js)
  then show ?case
    by (auto split: sum.splits dest: new_particle_error)
qed

lemma resample_keeps_weights:
  assumes "\<forall>p \<in> set (particle_cloud s). 1 \<le> p_w p"
  shows "resample_particles draw s \<noteq> Inl ZeroDivisionError"
    and "resample_particles draw s = Inr s' \<Longrightarrow> \<forall>p \<in> set (particle_cloud s'). 1 \<le> p_w p"
proof -
  have "\<forall>p \<in> set (best_particles (n_particles s) (particle_cloud s)). 1 \<le> p_w p"
    using assms set_best_particles [of "n_particles s" "particle_cloud s"] by blast
  then obtain c where c: "normalize_cloud (best_particles (n_particles s) (particle_cloud s)) = Inr c"
    using normalize_cloud_weights by blast
  show "resample_particles draw s \<noteq> Inl ZeroDivisionError"
    using c
    by (auto simp: resample_particles_def resample_cloud_def Let_def
        split: sum.splits dest: new_particles_error)
  show "\<forall>p \<in> set (particle_cloud s'). 1 \<le> p_w p" if "resample_particles draw s = Inr s'"
    using resample_particles_weight(1) [OF that] by (simp add: default_w_def)
qed

lemma initialize_keeps_weights:
  shows "initialize_particle_cloud draw xy s \<noteq> Inl ZeroDivisionError"
    and "initialize_particle_cloud draw xy s = Inr s' \<Longrightarrow>
           \<forall>p \<in> set (particle_cloud s'). 1 \<le> p_w p"
proof -
  have step: "\<exists>s2. (case normalize_particles (s\<lparr>particle_cloud := cloud\<rparr>) of
                     Inl err \<Rightarrow> Inl err | Inr s1 \<Rightarrow> update_robot_pose s1) = Inr s2
                 \<and> (\<forall>p \<in> set (particle_cloud s2). 1 \<le> p_w p)"
    if "\<forall>p \<in> set cloud. 1 \<le> p_w p" for cloud
  proof -
    have "\<forall>p \<in> set (particle_cloud (s\<lparr>particle_cloud := cloud\<rparr>)). 1 \<le> p_w p"
      using that by simp
    then obtain c where c: "normalize_particles (s\<lparr>particle_cloud := cloud\<rparr>) =
        Inr (s\<lparr>particle_cloud := cloud\<rparr>\<lparr>particle_cloud := c\<rparr>)" "\<forall>p \<in> set c. 1 \<le> p_w p"
      using normalize_particles_weights by blast
    have "\<forall>p \<in> set (particle_cloud (s\<lparr>particle_cloud := cloud\<rparr>\<lparr>particle_cloud := c\<rparr>)). 1 \<le> p_w p"
      using c(2) by simp
    then show ?thesis
      using pose_keeps_weights c(1) by (simp del: pf.update_convs)
  qed
  have cloud: "\<forall>p \<in> set (map (\<lambda>i. case draw i of (zx, zy, zt) \<Rightarrow>
                  Particle (mx + position_sigma * zx) (my + position_sigma * zy)
                    (mt + angle_sigma * zt) default_w) [0..<nat (n_particles s)]). 1 \<le> p_w p"
    for mx my mt
    by (auto simp: Particle_def default_w_def split: prod.splits)
  have all: "initialize_particle_cloud draw xy s \<noteq> Inl ZeroDivisionError
      \<and> (\<forall>s'. initialize_particle_cloud draw xy s = Inr s'
             \<longrightarrow> (\<forall>p \<in> set (particle_cloud s'). 1 \<le> p_w p))"
  proof (cases "case xy of None \<Rightarrow> odom_pose s | Some v \<Rightarrow> Some v")
    case None
    then show ?thesis
      by (simp add: initialize_particle_cloud_def)
  next
    case (Some m)
    obtain mx my mt where m: "m = (mx, my, mt)"
      by (cases m) auto
    have "initialize_particle_cloud draw xy s =
        (case normalize_particles (s\<lparr>particle_cloud :=
                 map (\<lambda>i. case draw i of (zx, zy, zt) \<Rightarrow>
                        Particle (mx + position_sigma * zx) (my + position_sigma * zy)
                          (mt + angle_sigma * zt) default_w) [0..<nat (n_particles s)]\<rparr>) of
           Inl err \<Rightarrow> Inl err | Inr s1 \<Rightarrow> update_robot_pose s1)"
      using Some m by (simp add: initialize_particle_cloud_def Let_def)
    then show ?thesis
      using step [OF cloud [of mx my mt]] by auto
  qed
  show "initialize_particle_cloud draw xy s \<noteq> Inl ZeroDivisionError"
    using all by blast
  show "\<forall>p \<in> set (particle_cloud s'). 1 \<le> p_w p"
    if "initialize_particle_cloud draw xy s = Inr s'"
    using all that by blast
qed

lemma tracking_keeps_weights:
  assumes "\<forall>p \<in> set (particle_cloud s). 1 \<le> p_w p"
  shows "tracking_update e r theta s \<noteq> Inl ZeroDivisionError"
    and "tracking_update e r theta s = Inr s' \<Longrightarrow> \<forall>p \<in> set (particle_cloud s'). 1 \<le> p_w p"
proof -
  show "tracking_update e r theta s \<noteq> Inl ZeroDivisionError"
  proof (cases "update_particles_with_odom (odom_draw e) s")
    case (Inl err)
    then show ?thesis
      using odom_keeps_weights(1) [OF assms, of "odom_draw e"]
      by (simp add: tracking_update_def)
  next
    case (Inr s1)
    have w1: "\<forall>p \<in> set (particle_cloud s1). 1 \<le> p_w p"
      using assms Inr by (rule odom_keeps_weights(2))
    obtain c where c: "update_particles_with_laser (closest_obstacle_distance e) r theta s1 =
        Inr (s1\<lparr>particle_cloud := c\<rparr>)" "\<forall>p \<in> set c. 1 \<le> p_w p"
      using laser_keeps_weights [OF w1] by blast
    have "\<forall>p \<in> set (particle_cloud (s1\<lparr>particle_cloud := c\<rparr>)). 1 \<le> p_w p"
      using c(2) by simp
    then obtain s3 where s3: "update_robot_pose (s1\<lparr>particle_cloud := c\<rparr>) = Inr s3"
        "\<forall>p \<in> set (particle_cloud s3). 1 \<le> p_w p"
      using pose_keeps_weights by blast
    show ?thesis
      using Inr c(1) s3(1) resample_keeps_weights(1) [OF s3(2)]
      by (simp add: tracking_update_def)
  qed
  show "\<forall>p \<in> set (particle_cloud s'). 1 \<le> p_w p" if "tracking_update e r theta s = Inr s'"
    using tracking_update_result(1) [OF that] by (simp add: default_w_def)
qed

lemma run_loop_keeps_weights:
  assumes "\<forall>p \<in> set (particle_cloud s). 1 \<le> p_w p"
  shows "run_loop e s \<noteq> Inl ZeroDivisionError"
    and "run_loop e s = Inr s' \<Longrightarrow> \<forall>p \<in> set (particle_cloud s'). 1 \<le> p_w p"
proof -
  have branch: "b \<noteq> Inl ZeroDivisionError
      \<and> (\<forall>s2. b = Inr s2 \<longrightarrow> (\<forall>p \<in> set (particle_cloud s2). 1 \<le> p_w p))"
    if "b = (if current_odom_xy_theta s1 = None
             then Inr (s1\<lparr>current_odom_xy_theta := Some new\<rparr>)
             else if particle_cloud s1 = []
             then initialize_particle_cloud (init_draw e) None s1
             else (case moved_far_enough_to_update s1 new of
                     Inl err \<Rightarrow> Inl err
                   | Inr moved \<Rightarrow> if moved then tracking_update e r theta s1 else Inr s1))"
      and "\<forall>p \<in> set (particle_cloud s1). 1 \<le> p_w p"
    for b s1 new r theta
  proof -
    have moved: "moved_far_enough_to_update s1 new \<noteq> Inl ZeroDivisionError"
      by (simp add: moved_far_enough_to_update_def split: option.splits prod.splits)
    show ?thesis
      unfolding that(1)
      using that(2) moved initialize_keeps_weights [of "init_draw e" None s1]
        tracking_keeps_weights [OF that(2), of e r theta]
      by (auto split: sum.splits)
  qed
  have all: "run_loop e s \<noteq> Inl ZeroDivisionError
      \<and> (\<forall>s'. run_loop e s = Inr s' \<longrightarrow> (\<forall>p \<in> set (particle_cloud s'). 1 \<le> p_w p))"
  proof (cases "scan_to_process s")
    case None
    then show ?thesis
      using assms by (simp add: run_loop_def)
  next
    case (Some msg)
    obtain a dt where m: "matching_odom_pose e = (a, dt)"
      by (cases "matching_odom_pose e") auto
    show ?thesis
    proof (cases a)
      case None
      then show ?thesis
        using assms Some m by (auto simp: run_loop_def split: option.splits)
    next
      case new: (Some new)
      define s1 where "s1 = s\<lparr>scan_to_process := None, odom_pose := Some new\<rparr>"
      define b where "b = (if current_odom_xy_theta s1 = None
             then Inr (s1\<lparr>current_odom_xy_theta := Some new\<rparr>)
             else if particle_cloud s1 = []
             then initialize_particle_cloud (init_draw e) None s1
             else (case moved_far_enough_to_update s1 new of
                     Inl err \<Rightarrow> Inl err
                   | Inr moved \<Rightarrow>
                       if moved then tracking_update e (scan_r msg) (scan_theta msg) s1
                       else Inr s1))"
      have "\<forall>p \<in> set (particle_cloud s1). 1 \<le> p_w p"
        using assms by (simp add: s1_def)
      then have b: "b \<noteq> Inl ZeroDivisionError"
          "\<And>s2. b = Inr s2 \<Longrightarrow> \<forall>p \<in> set (particle_cloud s2). 1 \<le> p_w p"
        using branch [OF b_def] by blast+
      have "run_loop e s =
          (case b of Inl err \<Rightarrow> Inl err | Inr s2 \<Rightarrow> Inr (publish_particles (stamp msg) s2))"
        unfolding run_loop_def b_def s1_def Some m new
        by (simp only: option.case prod.case Let_def)
      then show ?thesis
        using b by (auto simp: publish_particles_def split: sum.splits)
    qed
  qed
  show "run_loop e s \<noteq> Inl ZeroDivisionError"
    using all by blast
  show "\<forall>p \<in> set (particle_cloud s'). 1 \<le> p_w p" if "run_loop e s = Inr s'"
    using all that by blast
qed

lemma resample_particles_length:
  assumes "resample_particles draw s = Inr s'"
  shows "length (particle_cloud s') = nat (n_particles s)"
  using assms
  by (auto simp: resample_particles_def resample_cloud_def Let_def
      split: sum.splits dest: new_particles_length)

lemma odom_n_particles:
  "update_particles_with_odom draw s = Inr s' \<Longrightarrow> n_particles s' = n_particles s"
  by (auto simp: update_particles_with_odom_def Let_def split: option.splits prod.splits)

lemma laser_n_particles:
  "update_particles_with_laser field r theta s = Inr s' \<Longrightarrow> n_particles s' = n_particles s"
  by (auto simp: update_particles_with_laser_def normalize_particles_def split: sum.splits)

lemma pose_n_particles:
  "update_robot_pose s = Inr s' \<Longrightarrow> n_particles s' = n_particles s"
  by (auto simp: update_robot_pose_def normalize_particles_def Let_def
      split: sum.splits option.splits)

lemma tracking_update_length:
  assumes "tracking_update e r theta s = Inr s'"
  shows "length (particle_cloud s') = nat (n_particles s)"
proof -
  obtain s1 s2 s3 where steps:
      "update_particles_with_odom (odom_draw e) s = Inr s1"
      "update_particles_with_laser (closest_obstacle_distance e) r theta s1 = Inr s2"
      "update_robot_pose s2 = Inr s3"
      "resample_particles (resample_draw e) s3 = Inr s'"
    using assms by (auto simp: tracking_update_def split: sum.splits)
  have "n_particles s3 = n_particles s"
    using steps(1,2,3) by (simp add: odom_n_particles laser_n_particles pose_n_particles)
  then show ?thesis
    using resample_particles_length [OF steps(4)] by simp
qed

lemma wrap_odom:
  "update_particles_with_odom zero_noise
     (wrap_tracking_example\<lparr>scan_to_process := None, odom_pose := Some (0, 0, - pi + 1 / 100)\<rparr>) =
     Inr (wrap_tracking_example\<lparr>scan_to_process := None,
            odom_pose := Some (0, 0, - pi + 1 / 100),
            current_odom_xy_theta := Some (0, 0, - pi + 1 / 100),
            particle_cloud := replicate 300 (Particle 0 0 (2 / 100 - 2 * pi) 1)\<rparr>)"
  by (simp add: update_particles_with_odom_def wrap_tracking_example_def tracking_example_def
      pf_init_def zero_noise_def arctan2_def move_particle_def turn_def drive_def
      Particle_def map_enumerate_const)

lemma laser_replicate_hit:
  "update_particles_with_laser (\<lambda>a b. Some 0) [Some 1] [0]
     (s\<lparr>particle_cloud := replicate 300 (Particle x0 y0 t0 1)\<rparr>) =
     Inr (s\<lparr>particle_cloud := replicate 300 ((Particle x0 y0 t0 2)\<lparr>p_norm_w := 1 / 300\<rparr>)\<rparr>)"
proof -
  have "normalize_cloud (replicate 300 (Particle x0 y0 t0 2)) =
          Inr (replicate 300 ((Particle x0 y0 t0 2)\<lparr>p_norm_w := 1 / 300\<rparr>))"
    using normalize_cloud_replicate [of 300 "Particle x0 y0 t0 2"]
    by (simp add: Particle_def)
  then show ?thesis
    by (simp add: update_particles_with_laser_def normalize_particles_def Particle_def)
qed

lemma update_robot_pose_cloud_replicate:
  assumes "particle_cloud s = replicate 300 p" and "0 < p_w p"
  shows "\<exists>s'. update_robot_pose s = Inr s'
           \<and> particle_cloud s' = replicate 300 (p\<lparr>p_norm_w := p_w p / (300 * p_w p)\<rparr>)
           \<and> n_particles s' = n_particles s
           \<and> current_odom_xy_theta s' = current_odom_xy_theta s
           \<and> published s' = published s \<and> map_frame s' = map_frame s"
proof -
  let ?q = "p\<lparr>p_norm_w := p_w p / (300 * p_w p)\<rparr>"
  have "normalize_cloud (replicate 300 p) = Inr (replicate 300 ?q)"
    using normalize_cloud_replicate [of 300 p] assms(2) by simp
  then have "normalize_particles s = Inr (s\<lparr>particle_cloud := replicate 300 ?q\<rparr>)"
    using assms(1) by (simp add: normalize_particles_def)
  then show ?thesis
    by (cases "odom_pose s") (simp_all add: update_robot_pose_def Let_def)
qed

subsection \<open>Claims\<close>

text \<open>
  Claim C6. For every non-empty particle cloud whose raw weights have a nonzero sum,
  normalize succeeds; afterwards each particle's \<open>norm_w\<close> is its \<open>w\<close> divided by the
  total raw weight, nothing else of a particle has changed, and the \<open>norm_w\<close> values
  sum to 1 (in exact arithmetic).
\<close>

theorem normalize_sums_to_one:
  assumes "cloud \<noteq> []" and "sum_list (map p_w cloud) \<noteq> 0"
  shows "\<exists>cloud'. normalize_cloud cloud = Inr cloud'
           \<and> cloud' = map (\<lambda>p. p\<lparr>p_norm_w := p_w p / sum_list (map p_w cloud)\<rparr>) cloud
           \<and> map p_norm_w cloud' = map (\<lambda>p. p_w p / sum_list (map p_w cloud)) cloud
           \<and> sum_list (map p_norm_w cloud') = 1"
proof -
  let ?t = "sum_list (map p_w cloud)"
  let ?c = "map (\<lambda>p. p\<lparr>p_norm_w := p_w p / ?t\<rparr>) cloud"
  have run: "normalize_cloud cloud = Inr ?c"
    using assms by (simp add: normalize_cloud_def total_weight_sum_list)
  have norm: "map p_norm_w ?c = map (\<lambda>p. p_w p / ?t) cloud"
    by (simp add: comp_def)
  have "sum_list (map p_norm_w ?c) = ?t / ?t"
    unfolding norm by (rule sum_list_divide)
  then have one: "sum_list (map p_norm_w ?c) = 1"
    using assms(2) by simp
  from run norm one show ?thesis by blast
qed

theorem normalize_sums_to_one_witness:
  "\<exists>cloud'. normalize_cloud [Particle 0 0 0 1, Particle 1 2 3 3] = Inr cloud'
      \<and> map p_norm_w cloud' = [1 / 4, 3 / 4]
      \<and> sum_list (map p_norm_w cloud') = 1"
  using normalize_sums_to_one [of "[Particle 0 0 0 1, Particle 1 2 3 3]"]
  by (simp add: Particle_def)

text \<open>
  Claim C3, as stated, fails: the code has no fallback. On a cloud of one particle of
  raw weight 0 the division raises ZeroDivisionError, and no normalized weight is
  written.
\<close>

theorem normalize_zero_weights_raises:
  "normalize_cloud [Particle 0 0 0 0] = Inl ZeroDivisionError"
  by (simp add: normalize_cloud_def Particle_def)

text \<open>
  Claim C3, amended. normalize has no fallback: on every non-empty cloud whose raw
  weights sum to 0 it raises ZeroDivisionError. The filter excludes that input
  instead. A particle is constructed with the raw weight 1.0 and the sensor model
  only adds 1 to it, so every raw weight of a cloud that the filter holds is at
  least 1: on such a cloud normalize succeeds, and a cycle of the main loop never
  raises ZeroDivisionError and leaves every raw weight at least 1.
\<close>

theorem normalize_without_fallback:
  "(cloud \<noteq> [] \<and> sum_list (map p_w cloud) = 0
      \<longrightarrow> normalize_cloud cloud = Inl ZeroDivisionError)
   \<and> ((\<forall>p \<in> set (particle_cloud s). 1 \<le> p_w p)
      \<longrightarrow> (\<exists>cloud'. normalize_cloud (particle_cloud s) = Inr cloud')
        \<and> run_loop e s \<noteq> Inl ZeroDivisionError
        \<and> (\<forall>s'. run_loop e s = Inr s' \<longrightarrow> (\<forall>p \<in> set (particle_cloud s'). 1 \<le> p_w p)))"
proof (intro conjI impI)
  assume "cloud \<noteq> [] \<and> sum_list (map p_w cloud) = 0"
  then show "normalize_cloud cloud = Inl ZeroDivisionError"
    by (simp add: normalize_cloud_def total_weight_sum_list)
next
  assume w: "\<forall>p \<in> set (particle_cloud s). 1 \<le> p_w p"
  show "\<exists>cloud'. normalize_cloud (particle_cloud s) = Inr cloud'"
    using normalize_cloud_weights [OF w] by blast
  show "run_loop e s \<noteq> Inl ZeroDivisionError"
    using w by (rule run_loop_keeps_weights(1))
  show "\<forall>s'. run_loop e s = Inr s' \<longrightarrow> (\<forall>p \<in> set (particle_cloud s'). 1 \<le> p_w p)"
    using run_loop_keeps_weights(2) [OF w] by blast
qed

theorem normalize_without_fallback_witness:
  "normalize_cloud [Particle 0 0 0 0] = Inl ZeroDivisionError
   \<and> (\<exists>cloud'. normalize_cloud (particle_cloud tracking_example) = Inr cloud')
   \<and> run_loop moving_env tracking_example \<noteq> Inl ZeroDivisionError"
  using normalize_without_fallback [of "[Particle 0 0 0 0]" tracking_example moving_env]
  by (simp add: Particle_def tracking_example_def pf_init_def)

text \<open>
  Claim C4, as stated, fails: with the baseline \<open>(0,0,0)\<close>, the new odometry
  \<open>(1,0,0)\<close> and no noise, a particle at the origin with heading \<open>pi/2\<close> ends at
  \<open>(0,1)\<close>, not at \<open>(1,0)\<close>.
\<close>

theorem odom_unit_step_counterexample:
  "update_particles_with_odom zero_noise odom_example =
     Inr (odom_example\<lparr>current_odom_xy_theta := Some (1, 0, 0),
            particle_cloud := [\<lparr>p_x = 0, p_y = 1, p_theta = pi / 2, p_w = 1, p_norm_w = 1\<rparr>]\<rparr>)"
  by (simp add: update_particles_with_odom_def odom_example_def pf_init_def zero_noise_def
      arctan2_def move_particle_def turn_def drive_def Particle_def)

text \<open>
  Claim C4, amended. With the baseline \<open>(0,0,0)\<close>, the new odometry \<open>(1,0,0)\<close> and
  all noise 0, the motion update moves every particle by the distance 1 along the
  particle's own heading: its position shifts by \<open>(cos theta, sin theta)\<close>, which is
  \<open>(1,0)\<close> for a particle of heading 0; heading and weights are unchanged, and the
  baseline becomes \<open>(1,0,0)\<close>.
\<close>

theorem odom_unit_step:
  assumes "current_odom_xy_theta s = Some (0, 0, 0)"
    and "odom_pose s = Some (1, 0, 0)"
    and "draw = (\<lambda>i. (0, 0, 0))"
  shows "update_particles_with_odom draw s =
           Inr (s\<lparr>current_odom_xy_theta := Some (1, 0, 0),
                  particle_cloud :=
                    map (\<lambda>p. p\<lparr>p_x := p_x p + cos (p_theta p),
                                p_y := p_y p + sin (p_theta p)\<rparr>) (particle_cloud s)\<rparr>)"
  using assms
  by (simp add: update_particles_with_odom_def arctan2_pos_axis move_particle_unit
      map_enumerate_const)

theorem odom_unit_step_witness:
  "update_particles_with_odom (\<lambda>i. (0, 0, 0)) odom_example =
     Inr (odom_example\<lparr>current_odom_xy_theta := Some (1, 0, 0),
            particle_cloud :=
              map (\<lambda>p. p\<lparr>p_x := p_x p + cos (p_theta p),
                          p_y := p_y p + sin (p_theta p)\<rparr>) (particle_cloud odom_example)\<rparr>)"
  using odom_unit_step [of odom_example "\<lambda>i. (0, 0, 0)"]
  by (simp add: odom_example_def pf_init_def)

text \<open>
  Claim C5. The claim asks that a turn through the wrap-around is compared by its
  true size. The scheduler compares the plain difference of the two headings: from
  the baseline heading \<open>pi - 0.01\<close> to the new heading \<open>-pi + 0.01\<close> at the same
  position (the new heading is the old one plus 0.02, less a full turn, and 0.02 is
  below \<open>a_thresh = pi/6\<close>) it reports that the robot has moved far enough.
\<close>

theorem angle_wrap_reports_motion:
  "moved_far_enough_to_update wrap_example (0, 0, - pi + 1 / 100) = Inr True
   \<and> current_odom_xy_theta wrap_example = Some (0, 0, pi - 1 / 100)
   \<and> - pi + 1 / 100 = (pi - 1 / 100) + 2 / 100 - 2 * pi
   \<and> 2 / 100 < a_thresh wrap_example"
proof -
  have "pi / 6 < \<bar>- pi + 1 / 100 - (pi - 1 / 100)\<bar>"
    using pi_ge_two by (simp add: abs_if)
  then have "moved_far_enough_to_update wrap_example (0, 0, - pi + 1 / 100) = Inr True"
    by (simp add: moved_far_enough_to_update_def wrap_example_def pf_init_def)
  moreover have "2 / 100 < a_thresh wrap_example"
    using pi_ge_two by (simp add: wrap_example_def pf_init_def)
  ultimately show ?thesis
    by (simp add: wrap_example_def pf_init_def)
qed

text \<open>
  Claim C9. The claim asks that a cycle below both thresholds leaves the cloud and
  the baseline as they are. In the tracking example with the baseline heading
  \<open>pi - 0.01\<close>, the robot is at the same position with the heading \<open>-pi + 0.01\<close>: it
  has not moved and has turned by 0.02 rad, below \<open>a_thresh\<close>. The cycle runs the
  full update all the same: the baseline becomes the new pose, every particle is
  replaced by one whose heading has changed, and the new cloud is published.
\<close>

theorem wrap_cycle_replaces_cloud:
  "map_sum id (\<lambda>s'. (particle_cloud s', current_odom_xy_theta s', length (published s')))
      (run_loop wrap_env wrap_tracking_example) =
     Inr (replicate 300 (Particle 0 0 (2 / 100 - 2 * pi) 1), Some (0, 0, - pi + 1 / 100), 1)
   \<and> particle_cloud wrap_tracking_example = replicate 300 (Particle 0 0 0 1)
   \<and> current_odom_xy_theta wrap_tracking_example = Some (0, 0, pi - 1 / 100)
   \<and> matching_odom_pose wrap_env = (Some (0, 0, - pi + 1 / 100), None)"
proof -
  define new :: xy_theta where "new = (0, 0, - pi + 1 / 100)"
  define s0 where "s0 = wrap_tracking_example\<lparr>scan_to_process := None, odom_pose := Some new\<rparr>"
  define s1 where "s1 = s0\<lparr>current_odom_xy_theta := Some new,
      particle_cloud := replicate 300 (Particle 0 0 (2 / 100 - 2 * pi) 1)\<rparr>"
  define scored where "scored = (Particle 0 0 (2 / 100 - 2 * pi) 2)\<lparr>p_norm_w := 1 / 300\<rparr>"
  define s2 where "s2 = s1\<lparr>particle_cloud := replicate 300 scored\<rparr>"
  have "pi / 6 < \<bar>- pi + 1 / 100 - (pi - 1 / 100)\<bar>"
    using pi_ge_two by (simp add: abs_if)
  then have h: "scan_to_process wrap_tracking_example =
        Some \<lparr>stamp = 7, scan_r = [Some 1], scan_theta = [0]\<rparr>"
      "matching_odom_pose wrap_env = (Some new, None)"
      "current_odom_xy_theta wrap_tracking_example = Some (0, 0, pi - 1 / 100)"
      "particle_cloud wrap_tracking_example \<noteq> []"
      "moved_far_enough_to_update wrap_tracking_example new = Inr True"
    by (simp_all add: wrap_tracking_example_def tracking_example_def wrap_env_def
        moving_env_def pf_init_def moved_far_enough_to_update_def new_def)
  have odom: "update_particles_with_odom (odom_draw wrap_env) s0 = Inr s1"
    unfolding s0_def s1_def new_def using wrap_odom by (simp add: wrap_env_def moving_env_def)
  have laser: "update_particles_with_laser (closest_obstacle_distance wrap_env)
      [Some 1] [0] s1 = Inr s2"
    unfolding s1_def s2_def scored_def
    by (simp add: wrap_env_def moving_env_def laser_replicate_hit)
  have s2: "particle_cloud s2 = replicate 300 scored" "n_particles s2 = 300"
      "current_odom_xy_theta s2 = Some new" "published s2 = []"
    by (simp_all add: s2_def s1_def s0_def wrap_tracking_example_def tracking_example_def
        pf_init_def)
  have scored: "p_x scored = 0" "p_y scored = 0" "p_theta scored = 2 / 100 - 2 * pi"
      "p_w scored = 2"
    by (simp_all add: scored_def Particle_def)
  obtain s3 where s3: "update_robot_pose s2 = Inr s3"
      "particle_cloud s3 = replicate 300 (scored\<lparr>p_norm_w := p_w scored / (300 * p_w scored)\<rparr>)"
      "n_particles s3 = n_particles s2"
      "current_odom_xy_theta s3 = current_odom_xy_theta s2"
      "published s3 = published s2"
    using update_robot_pose_cloud_replicate [OF s2(1)] scored(4) by auto
  have "resample_particles zero_draw s3 =
      Inr (s3\<lparr>particle_cloud := replicate 300 (Particle 0 0 (2 / 100 - 2 * pi) default_w)\<rparr>)"
    using resample_particles_replicate_300 [OF s3(2)] s3(3) s2(2) scored by simp
  then have "tracking_update wrap_env [Some 1] [0] s0 =
      Inr (s3\<lparr>particle_cloud := replicate 300 (Particle 0 0 (2 / 100 - 2 * pi) default_w)\<rparr>)"
    using odom laser s3(1) by (simp add: tracking_update_def wrap_env_def moving_env_def)
  then have "run_loop wrap_env wrap_tracking_example =
      Inr (publish_particles 7
        (s3\<lparr>particle_cloud := replicate 300 (Particle 0 0 (2 / 100 - 2 * pi) default_w)\<rparr>))"
    using run_loop_moved [OF h] by (simp add: s0_def)
  then have "map_sum id
      (\<lambda>s'. (particle_cloud s', current_odom_xy_theta s', length (published s')))
      (run_loop wrap_env wrap_tracking_example) =
     Inr (replicate 300 (Particle 0 0 (2 / 100 - 2 * pi) 1), Some new, 1)"
    using s3(4,5) s2(3,4) by (simp add: publish_particles_def default_w_def)
  then show ?thesis
    using h(2,3)
    by (simp add: new_def wrap_tracking_example_def tracking_example_def pf_init_def)
qed

text \<open>
  Claim C8. For a cloud whose particles have the headings \<open>-pi + 0.01\<close> and
  \<open>pi - 0.01\<close>, in equal number and all with the same positive raw weight, the pose
  estimator succeeds and the heading of its estimate is \<open>pi\<close>: at the wrap-around,
  not near 0.
\<close>

theorem circular_mean_at_wrap:
  assumes "\<forall>p \<in> set (particle_cloud s).
             (p_theta p = - pi + 1 / 100 \<or> p_theta p = pi - 1 / 100) \<and> p_w p = c"
    and "0 < c"
    and "particle_cloud s \<noteq> []"
    and "length (filter (\<lambda>p. p_theta p = - pi + 1 / 100) (particle_cloud s)) =
         length (filter (\<lambda>p. p_theta p = pi - 1 / 100) (particle_cloud s))"
  shows "\<exists>s'. update_robot_pose s = Inr s' \<and> map_option yaw (robot_pose s') = Some pi"
proof -
  let ?cloud = "particle_cloud s"
  let ?t = "sum_list (map p_w ?cloud)"
  let ?norm = "map (\<lambda>p. p\<lparr>p_norm_w := p_w p / ?t\<rparr>) ?cloud"
  have total: "?t = real (length ?cloud) * c"
    using assms(1) by (simp add: sum_list_const_weight)
  have "0 < length ?cloud"
    using assms(3) by simp
  then have tpos: "?t \<noteq> 0"
    using assms(2) total by simp
  have norm: "normalize_cloud ?cloud = Inr ?norm"
    using assms(3) tpos by (simp add: normalize_cloud_def total_weight_sum_list)
  have "p_theta (mean_particle ?norm) = pi"
    using assms by (rule wrap_cloud_mean_heading)
  then show ?thesis
    using norm
    by (cases "odom_pose s")
      (simp_all add: update_robot_pose_def normalize_particles_def as_pose_def Let_def)
qed

theorem circular_mean_at_wrap_witness:
  "\<exists>s'. update_robot_pose wrap_cloud_example = Inr s' \<and> map_option yaw (robot_pose s') = Some pi"
proof -
  have "- pi + 1 / 100 \<noteq> pi - 1 / 100"
    using pi_ge_two by simp
  then show ?thesis
    using circular_mean_at_wrap [of wrap_cloud_example 1]
    by (simp add: wrap_cloud_example_def pf_init_def Particle_def)
qed

text \<open>
  Claim C2. The claim asks that the elitism stage keep \<open>round(300 * 0.25) = 75\<close>
  particles, the best one among them. On the cloud with the strictly increasing
  weights 1, ..., 300 the code keeps the 74 particles of weights 226, ..., 299: the
  slice stops before the last sorted index, so the particle of weight 300 is dropped.
\<close>

theorem elitism_drops_best:
  "best_particles (n_particles pf_init) increasing_cloud =
     map (\<lambda>i. Particle 0 0 0 (real (Suc i))) [225..<299]
   \<and> length (best_particles (n_particles pf_init) increasing_cloud) = 74
   \<and> py_round (of_int (n_particles pf_init) * amount_to_keep) = 75"
proof -
  have ws: "map p_w increasing_cloud = map (\<lambda>i. real (Suc i)) [0..<300]"
    by (simp add: increasing_cloud_def Particle_def del: upt_rec_numeral)
  have "argsort (map p_w increasing_cloud) = [0..<300]"
    unfolding ws using argsort_sorted [OF sorted_map_real_Suc [of 0 300]]
    by (simp del: upt_rec_numeral)
  then have idx: "best_particle_indexes 300 increasing_cloud = [225..<299]"
    by (simp add: best_particle_indexes_300 increasing_cloud_def del: upt_rec_numeral)
  have res: "best_particles 300 increasing_cloud =
          map (\<lambda>i. Particle 0 0 0 (real (Suc i))) [225..<299]"
    unfolding best_particles_def idx
    unfolding increasing_cloud_def
    by (rule map_nth_map_upt) simp
  have "length (map (\<lambda>i. Particle 0 0 0 (real (Suc i))) [225..<299]) = 74"
    by (simp del: upt_rec_numeral)
  then show ?thesis
    using kept_count_300 res by (simp add: pf_init_def del: upt_rec_numeral)
qed

text \<open>
  Claim C7. The claim asks that resample always yields \<open>n_particles\<close> particles. On
  the filter's 300 particles of equal raw weight the pruning keeps 74, each with
  the normalized weight \<open>1/74\<close>; the running sum of these 74 doubles ends at
  \<open>1 - 13 * 2^-53\<close>, not at 1. With the uniform draw \<open>1 - 2^-53\<close> no cumulative
  probability is above the draw, \<open>searchsorted\<close> returns 74, and indexing the 74
  survivors there raises IndexError: no cloud is produced, by the resampler alone
  and by a whole cycle of the main loop. With the uniform draw 0 the same cloud is
  resampled to 300 particles of raw weight 1.0.
\<close>

theorem resample_rounding_index_error:
  "resample_particles top_draw tracking_example = Inl IndexError
   \<and> run_loop top_env tracking_example = Inl IndexError
   \<and> last (cumsum (replicate 74 (round_to_double (1 / 74)))) = 1 - 13 / 2 ^ 53
   \<and> resample_particles zero_draw tracking_example =
       Inr (tracking_example\<lparr>particle_cloud := replicate 300 (Particle 0 0 0 1)\<rparr>)"
proof -
  have cloud: "particle_cloud tracking_example = replicate 300 (Particle 0 0 0 1)"
    and n: "n_particles tracking_example = 300"
    by (simp_all add: tracking_example_def pf_init_def)
  have pos: "0 < p_w (Particle 0 0 0 1)"
    by (simp add: Particle_def)
  have top: "resample_particles top_draw tracking_example = Inl IndexError"
    using resample_cloud_top_draw_300 [OF pos] by (simp add: resample_particles_def cloud n)
  have zero: "resample_particles zero_draw tracking_example =
       Inr (tracking_example\<lparr>particle_cloud := replicate 300 (Particle 0 0 0 1)\<rparr>)"
    using resample_particles_replicate_300 [OF cloud n pos]
    by (simp add: Particle_def default_w_def)
  have sum: "last (cumsum (replicate 74 (round_to_double (1 / 74)))) = 1 - 13 / 2 ^ 53"
    unfolding round_to_double_74th cumsum_equal_74 by simp
  define s1 where "s1 = aligned_example\<lparr>current_odom_xy_theta := Some (1, 0, 0),
      particle_cloud := replicate 300 (Particle 1 0 0 1)\<rparr>"
  define scored where "scored = (Particle 1 0 0 2)\<lparr>p_norm_w := 1 / 300\<rparr>"
  define s2 where "s2 = s1\<lparr>particle_cloud := replicate 300 scored\<rparr>"
  have h: "scan_to_process tracking_example =
        Some \<lparr>stamp = 7, scan_r = [Some 1], scan_theta = [0]\<rparr>"
      "matching_odom_pose top_env = (Some (1, 0, 0), None)"
      "current_odom_xy_theta tracking_example = Some (0, 0, 0)"
      "particle_cloud tracking_example \<noteq> []"
      "moved_far_enough_to_update tracking_example (1, 0, 0) = Inr True"
    by (simp_all add: tracking_example_def top_env_def moving_env_def pf_init_def
        moved_far_enough_to_update_def)
  have odom: "update_particles_with_odom (odom_draw top_env) aligned_example = Inr s1"
    by (simp add: top_env_def moving_env_def example_odom s1_def)
  have laser: "update_particles_with_laser (closest_obstacle_distance top_env)
      [Some 1] [0] s1 = Inr s2"
    unfolding s1_def s2_def scored_def by (simp add: top_env_def moving_env_def example_laser)
  have s2: "particle_cloud s2 = replicate 300 scored" "n_particles s2 = 300"
    by (simp_all add: s2_def s1_def aligned_example_def tracking_example_def pf_init_def)
  have scored: "0 < p_w scored"
    by (simp add: scored_def Particle_def)
  obtain s3 where s3: "update_robot_pose s2 = Inr s3"
      "particle_cloud s3 = replicate 300 (scored\<lparr>p_norm_w := p_w scored / (300 * p_w scored)\<rparr>)"
      "n_particles s3 = n_particles s2"
    using update_robot_pose_cloud_replicate [OF s2(1) scored] by auto
  have "resample_cloud 300 top_draw
      (replicate 300 (scored\<lparr>p_norm_w := p_w scored / (300 * p_w scored)\<rparr>)) = Inl IndexError"
    using scored by (intro resample_cloud_top_draw_300) simp
  then have "resample_particles top_draw s3 = Inl IndexError"
    using s3(2,3) s2(2) by (simp add: resample_particles_def)
  then have "tracking_update top_env [Some 1] [0] aligned_example = Inl IndexError"
    using odom laser s3(1) by (simp add: tracking_update_def top_env_def moving_env_def)
  then have "run_loop top_env tracking_example = Inl IndexError"
    using run_loop_moved [OF h] by (simp add: aligned_example_def)
  with top sum zero show ?thesis
    by simp
qed

text \<open>
  Claim C1, as stated, fails: the source estimates the pose before it resamples. In
  the example cycle every particle moves to \<open>(1,0,0)\<close> and is scored to the weight 2;
  the source stores the estimate \<open>x = 600\<close>, made from the scored cloud, while the
  order of the specification, with the estimate after the resampling, gives
  \<open>x = 300\<close>.
\<close>

theorem pose_estimate_order_counterexample:
  "map_sum id robot_pose (tracking_update moving_env [Some 1] [0] aligned_example) =
     Inr (Some \<lparr>pos_x = 600, pos_y = 0, pos_z = 0, yaw = 0\<rparr>)
   \<and> map_sum id robot_pose (tracking_update_spec_order moving_env [Some 1] [0] aligned_example) =
     Inr (Some \<lparr>pos_x = 300, pos_y = 0, pos_z = 0, yaw = 0\<rparr>)"
proof -
  define s1 where "s1 = aligned_example\<lparr>current_odom_xy_theta := Some (1, 0, 0),
      particle_cloud := replicate 300 (Particle 1 0 0 1)\<rparr>"
  define scored where "scored = (Particle 1 0 0 2)\<lparr>p_norm_w := 1 / 300\<rparr>"
  define s2 where "s2 = s1\<lparr>particle_cloud := replicate 300 scored\<rparr>"
  have odom: "update_particles_with_odom (odom_draw moving_env) aligned_example = Inr s1"
    by (simp add: moving_env_def example_odom s1_def)
  have laser: "update_particles_with_laser (closest_obstacle_distance moving_env)
      [Some 1] [0] s1 = Inr s2"
    unfolding s1_def s2_def scored_def by (simp add: moving_env_def example_laser)
  have s2: "particle_cloud s2 = replicate 300 scored" "odom_pose s2 = Some (1, 0, 0)"
      "n_particles s2 = 300"
    by (simp_all add: s2_def s1_def aligned_example_def tracking_example_def pf_init_def)
  have scored: "p_x scored = 1" "p_y scored = 0" "p_theta scored = 0" "p_w scored = 2"
    by (simp_all add: scored_def Particle_def)
  obtain s3 where s3: "update_robot_pose s2 = Inr s3"
      "particle_cloud s3 = replicate 300 (scored\<lparr>p_norm_w := p_w scored / (300 * p_w scored)\<rparr>)"
      "robot_pose s3 = Some \<lparr>pos_x = 600, pos_y = 0, pos_z = 0, yaw = 0\<rparr>"
    using update_robot_pose_replicate [OF s2(1,2)] scored by auto
  have "n_particles s3 = 300"
    using s3(1) s2(3)
    by (auto simp: update_robot_pose_def normalize_particles_def Let_def
        split: sum.splits option.splits)
  then have "resample_particles (resample_draw moving_env) s3 =
      Inr (s3\<lparr>particle_cloud := replicate 300 (Particle 1 0 0 default_w)\<rparr>)"
    using resample_particles_replicate_300 [OF s3(2)] scored by (simp add: moving_env_def)
  then have code: "map_sum id robot_pose (tracking_update moving_env [Some 1] [0] aligned_example) =
     Inr (Some \<lparr>pos_x = 600, pos_y = 0, pos_z = 0, yaw = 0\<rparr>)"
    by (simp add: tracking_update_def odom laser s3)
  have resampled: "resample_particles (resample_draw moving_env) s2 =
      Inr (s2\<lparr>particle_cloud := replicate 300 (Particle 1 0 0 default_w)\<rparr>)"
    using resample_particles_replicate_300 [OF s2(1,3)] scored by (simp add: moving_env_def)
  obtain s4 where s4: "update_robot_pose (s2\<lparr>particle_cloud :=
        replicate 300 (Particle 1 0 0 default_w)\<rparr>) = Inr s4"
      "robot_pose s4 = Some \<lparr>pos_x = 300, pos_y = 0, pos_z = 0, yaw = 0\<rparr>"
    using update_robot_pose_replicate
      [of "s2\<lparr>particle_cloud := replicate 300 (Particle 1 0 0 default_w)\<rparr>"
          "Particle 1 0 0 default_w" "(1, 0, 0)"] s2(2)
    by (auto simp: Particle_def default_w_def)
  have "map_sum id robot_pose (tracking_update_spec_order moving_env [Some 1] [0] aligned_example) =
     Inr (Some \<lparr>pos_x = 300, pos_y = 0, pos_z = 0, yaw = 0\<rparr>)"
    by (simp add: tracking_update_spec_order_def odom laser resampled s4)
  with code show ?thesis by simp
qed

text \<open>
  Claim C1, amended. In the tracking state, when the scheduler reports that the
  robot has moved far enough, the full update runs the motion model, then the sensor
  model (which ends with normalize), then the pose estimation (normalize, then the
  weighted mean), then the resampling, and then publishes: the resampling is the last
  step of the update, and the stored pose estimate is the one computed from the
  cloud before resampling. (Stated for a cloud of more than 225 particles with
  positive weights, \<open>n_particles = 300\<close> and uniform draws of at most \<open>1 - 2^-46\<close>,
  where every step succeeds.)
\<close>

theorem full_update_order:
  assumes "scan_to_process s = Some msg"
    and "matching_odom_pose e = (Some new, dt)"
    and "current_odom_xy_theta s = Some cur"
    and "moved_far_enough_to_update s new = Inr True"
    and "n_particles s = 300" and "225 < length (particle_cloud s)"
    and "\<forall>p \<in> set (particle_cloud s). 0 < p_w p"
    and "\<forall>i. fst (resample_draw e i) \<le> 1 - 1 / 2 ^ 46"
  shows "\<exists>s1 s2 s3 s4.
           update_particles_with_odom (odom_draw e)
             (s\<lparr>scan_to_process := None, odom_pose := Some new\<rparr>) = Inr s1
         \<and> update_particles_with_laser (closest_obstacle_distance e)
             (scan_r msg) (scan_theta msg) s1 = Inr s2
         \<and> update_robot_pose s2 = Inr s3
         \<and> resample_particles (resample_draw e) s3 = Inr s4
         \<and> run_loop e s = Inr (publish_particles (stamp msg) s4)
         \<and> robot_pose s4 = Some (as_pose (mean_particle (particle_cloud s3)))"
proof -
  let ?s0 = "s\<lparr>scan_to_process := None, odom_pose := Some new\<rparr>"
  have ne: "particle_cloud s \<noteq> []"
    using assms(6) by auto
  have loop: "run_loop e s =
      (case tracking_update e (scan_r msg) (scan_theta msg) ?s0 of
         Inl err \<Rightarrow> Inl err
       | Inr s2 \<Rightarrow> Inr (publish_particles (stamp msg) s2))"
    using assms(1,2,3) ne assms(4) by (rule run_loop_moved)
  have "\<exists>s1 s2 s3 s4.
           update_particles_with_odom (odom_draw e) ?s0 = Inr s1
         \<and> update_particles_with_laser (closest_obstacle_distance e)
             (scan_r msg) (scan_theta msg) s1 = Inr s2
         \<and> update_robot_pose s2 = Inr s3
         \<and> resample_particles (resample_draw e) s3 = Inr s4
         \<and> tracking_update e (scan_r msg) (scan_theta msg) ?s0 = Inr s4
         \<and> robot_pose s4 = Some (as_pose (mean_particle (particle_cloud s3)))
         \<and> current_odom_xy_theta s4 = Some new
         \<and> length (particle_cloud s4) = 300
         \<and> (\<forall>p \<in> set (particle_cloud s4). p_w p = default_w)
         \<and> published s4 = published ?s0 \<and> map_frame s4 = map_frame ?s0"
    using assms(3,5,6,7,8) by (intro tracking_update_chain) simp_all
  then obtain s1 s2 s3 s4 where
      "update_particles_with_odom (odom_draw e) ?s0 = Inr s1"
      "update_particles_with_laser (closest_obstacle_distance e)
         (scan_r msg) (scan_theta msg) s1 = Inr s2"
      "update_robot_pose s2 = Inr s3"
      "resample_particles (resample_draw e) s3 = Inr s4"
      "tracking_update e (scan_r msg) (scan_theta msg) ?s0 = Inr s4"
      "robot_pose s4 = Some (as_pose (mean_particle (particle_cloud s3)))"
    by blast
  then show ?thesis
    using loop by (intro exI [of _ s1] exI [of _ s2] exI [of _ s3] exI [of _ s4]) simp
qed

theorem full_update_order_witness:
  "\<exists>s1 s2 s3 s4.
      update_particles_with_odom zero_noise
        (tracking_example\<lparr>scan_to_process := None, odom_pose := Some (1, 0, 0)\<rparr>) = Inr s1
    \<and> update_particles_with_laser (\<lambda>a b. Some 0) [Some 1] [0] s1 = Inr s2
    \<and> update_robot_pose s2 = Inr s3
    \<and> resample_particles zero_draw s3 = Inr s4
    \<and> run_loop moving_env tracking_example = Inr (publish_particles 7 s4)
    \<and> robot_pose s4 = Some (as_pose (mean_particle (particle_cloud s3)))"
proof -
  have h: "scan_to_process tracking_example =
        Some \<lparr>stamp = 7, scan_r = [Some 1], scan_theta = [0]\<rparr>"
      "matching_odom_pose moving_env = (Some (1, 0, 0), None)"
      "current_odom_xy_theta tracking_example = Some (0, 0, 0)"
      "moved_far_enough_to_update tracking_example (1, 0, 0) = Inr True"
      "n_particles tracking_example = 300"
      "225 < length (particle_cloud tracking_example)"
      "\<forall>p \<in> set (particle_cloud tracking_example). 0 < p_w p"
      "\<forall>i. fst (resample_draw moving_env i) \<le> 1 - 1 / 2 ^ 46"
    by (simp_all add: tracking_example_def moving_env_def pf_init_def Particle_def
        moved_far_enough_to_update_def zero_draw_def)
  show ?thesis
    using full_update_order [OF h] by (simp add: moving_env_def)
qed

text \<open>
  Claim C10. \<open>publish_particles\<close> sends each particle with its raw weight \<open>w\<close>,
  whatever its normalized weight is. So on every cycle in which the full update ran
  (the scheduler reported enough motion and the cycle completed), exactly one
  message is appended; it lists the \<open>n_particles\<close> particles of the resampled cloud
  with their raw weights, and all these weights are 1.0.
\<close>

theorem published_weights_after_update:
  assumes "scan_to_process s = Some msg"
    and "matching_odom_pose e = (Some new, dt)"
    and "current_odom_xy_theta s = Some cur"
    and "particle_cloud s \<noteq> []"
    and "moved_far_enough_to_update s new = Inr True"
    and "run_loop e s = Inr s'"
  shows "msg_particles (last (published (publish_particles t s0))) =
           map (\<lambda>p. (as_pose p, p_w p)) (particle_cloud s0)
         \<and> published s' = published s @
           [\<lparr>frame_id = map_frame s, msg_stamp = stamp msg,
             msg_particles = map (\<lambda>p. (as_pose p, p_w p)) (particle_cloud s')\<rparr>]
         \<and> length (msg_particles (last (published s'))) = nat (n_particles s)
         \<and> (\<forall>pw \<in> set (msg_particles (last (published s'))). snd pw = 1)"
proof -
  let ?s0 = "s\<lparr>scan_to_process := None, odom_pose := Some new\<rparr>"
  have raw: "msg_particles (last (published (publish_particles t s0))) =
           map (\<lambda>p. (as_pose p, p_w p)) (particle_cloud s0)"
    by (simp add: publish_particles_def)
  have "run_loop e s =
      (case tracking_update e (scan_r msg) (scan_theta msg) ?s0 of
         Inl err \<Rightarrow> Inl err
       | Inr s2 \<Rightarrow> Inr (publish_particles (stamp msg) s2))"
    using assms(1-5) by (rule run_loop_moved)
  then obtain s4 where s4: "tracking_update e (scan_r msg) (scan_theta msg) ?s0 = Inr s4"
      "s' = publish_particles (stamp msg) s4"
    using assms(6) by (auto split: sum.splits)
  have w: "\<forall>p \<in> set (particle_cloud s4). p_w p = default_w"
    and pub: "published s4 = published ?s0" and frame: "map_frame s4 = map_frame ?s0"
    using tracking_update_result [OF s4(1)] by blast+
  have len: "length (particle_cloud s4) = nat (n_particles s)"
    using tracking_update_length [OF s4(1)] by simp
  have cloud: "particle_cloud s' = particle_cloud s4"
    by (simp add: s4(2) publish_particles_def)
  have first: "published s' = published s @
           [\<lparr>frame_id = map_frame s, msg_stamp = stamp msg,
             msg_particles = map (\<lambda>p. (as_pose p, p_w p)) (particle_cloud s')\<rparr>]"
    using pub frame by (simp add: s4(2) publish_particles_def)
  have "\<forall>pw \<in> set (map (\<lambda>p. (as_pose p, p_w p)) (particle_cloud s')). snd pw = 1"
    using w cloud by (auto simp: default_w_def)
  then show ?thesis
    using raw first len cloud by simp
qed

theorem published_weights_after_update_witness:
  "msg_particles (last (published (publish_particles 7 scored_example))) =
     [(\<lparr>pos_x = 1, pos_y = 2, pos_z = 0, yaw = 0\<rparr>, 3),
      (\<lparr>pos_x = 4, pos_y = 5, pos_z = 0, yaw = 0\<rparr>, 1)]
   \<and> map p_norm_w (particle_cloud scored_example) = [3 / 4, 1 / 4]
   \<and> (\<exists>s'. run_loop moving_env tracking_example = Inr s'
      \<and> published s' =
          [\<lparr>frame_id = ''map'', msg_stamp = 7,
            msg_particles = map (\<lambda>p. (as_pose p, p_w p)) (particle_cloud s')\<rparr>]
      \<and> length (msg_particles (last (published s'))) = 300
      \<and> (\<forall>pw \<in> set (msg_particles (last (published s'))). snd pw = 1))"
proof -
  have h: "scan_to_process tracking_example =
        Some \<lparr>stamp = 7, scan_r = [Some 1], scan_theta = [0]\<rparr>"
      "matching_odom_pose moving_env = (Some (1, 0, 0), None)"
      "current_odom_xy_theta tracking_example = Some (0, 0, 0)"
      "particle_cloud tracking_example \<noteq> []"
      "moved_far_enough_to_update tracking_example (1, 0, 0) = Inr True"
    by (simp_all add: tracking_example_def moving_env_def pf_init_def
        moved_far_enough_to_update_def)
  have "\<exists>s1 s2 s3 s4.
           update_particles_with_odom (odom_draw moving_env) aligned_example = Inr s1
         \<and> update_particles_with_laser (closest_obstacle_distance moving_env)
             [Some 1] [0] s1 = Inr s2
         \<and> update_robot_pose s2 = Inr s3
         \<and> resample_particles (resample_draw moving_env) s3 = Inr s4
         \<and> tracking_update moving_env [Some 1] [0] aligned_example = Inr s4
         \<and> robot_pose s4 = Some (as_pose (mean_particle (particle_cloud s3)))
         \<and> current_odom_xy_theta s4 = Some (1, 0, 0)
         \<and> length (particle_cloud s4) = 300
         \<and> (\<forall>p \<in> set (particle_cloud s4). p_w p = default_w)
         \<and> published s4 = published aligned_example
         \<and> map_frame s4 = map_frame aligned_example"
    by (intro tracking_update_chain)
      (simp_all add: aligned_example_def tracking_example_def moving_env_def pf_init_def
        Particle_def zero_draw_def)
  then obtain s4 where "tracking_update moving_env [Some 1] [0] aligned_example = Inr s4"
    by blast
  then have "run_loop moving_env tracking_example = Inr (publish_particles 7 s4)"
    using run_loop_moved [OF h] by (simp add: aligned_example_def)
  then obtain s' where run: "run_loop moving_env tracking_example = Inr s'"
    by blast
  have n: "nat (n_particles tracking_example) = 300"
      "published tracking_example = []" "map_frame tracking_example = ''map''"
    by (simp_all add: tracking_example_def pf_init_def)
  have raw: "msg_particles (last (published (publish_particles 7 scored_example))) =
     [(\<lparr>pos_x = 1, pos_y = 2, pos_z = 0, yaw = 0\<rparr>, 3),
      (\<lparr>pos_x = 4, pos_y = 5, pos_z = 0, yaw = 0\<rparr>, 1)]"
    using published_weights_after_update [OF h run, of 7 scored_example]
    by (simp add: scored_example_def pf_init_def Particle_def as_pose_def)
  have nw: "map p_norm_w (particle_cloud scored_example) = [3 / 4, 1 / 4]"
    by (simp add: scored_example_def pf_init_def Particle_def)
  have a: "published s' =
          [\<lparr>frame_id = ''map'', msg_stamp = 7,
            msg_particles = map (\<lambda>p. (as_pose p, p_w p)) (particle_cloud s')\<rparr>]"
    using published_weights_after_update [OF h run, of 7 scored_example] n(2,3) by simp
  have "length (msg_particles (last (published s'))) = nat (n_particles tracking_example)"
    using published_weights_after_update [OF h run, of 7 scored_example] by blast
  then have b: "length (msg_particles (last (published s'))) = 300"
    by (simp only: n(1))
  have c: "\<forall>pw \<in> set (msg_particles (last (published s'))). snd pw = 1"
    using published_weights_after_update [OF h run, of 7 scored_example] by blast
  have "\<exists>s'. run_loop moving_env tracking_example = Inr s'
      \<and> published s' =
          [\<lparr>frame_id = ''map'', msg_stamp = 7,
            msg_particles = map (\<lambda>p. (as_pose p, p_w p)) (particle_cloud s')\<rparr>]
      \<and> length (msg_particles (last (published s'))) = 300
      \<and> (\<forall>pw \<in> set (msg_particles (last (published s'))). snd pw = 1)"
    using run a b c by blast
  then show ?thesis
    using raw nw by blast
qed

end
